theory Spec2Isabelle
  imports Main "HOL-Library.Word" "HOL-Library.Monad_Syntax"
begin

unbundle bit_operations_syntax

section \<open>Machine words, constants and memory\<close>

text \<open>
  The C sources (\<open>spooky-c.c\<close>, \<open>spooky-c.h\<close>) work on \<open>uint8_t\<close>, \<open>uint32_t\<close> and
  \<open>uint64_t\<close>; additions wrap modulo the width.  Byte counts (\<open>size_t\<close>, and the
  \<open>unsigned m_remainder\<close>) are natural numbers: a buffer in memory and the total fed to one
  streaming session stay far below \<open>2^64\<close> bytes.  Casts of a count to \<open>uint8_t\<close> or
  \<open>uint64_t\<close> are written out.

  A buffer is a list of bytes and a pointer into it is a byte offset.  The code reads
  64-bit and 32-bit words through pointer casts and assumes a little-endian machine.
  All reads of the code stay inside the buffer as long as the \<open>length\<close> argument does
  not exceed the buffer, which is the contract of every entry point.

  The model is the configuration \<open>ALLOW_UNALIGNED_READS = 1\<close> (x86): the alternative
  branches copy a block to an aligned buffer before the same mixing call.

  The parameter \<open>length\<close> of the source is written \<open>len\<close> throughout.
\<close>

type_synonym u8 = "8 word"
type_synonym u32 = "32 word"
type_synonym u64 = "64 word"

definition SC_NUMVARS :: nat where
  "SC_NUMVARS = 12"

definition SC_BLOCKSIZE :: nat where
  "SC_BLOCKSIZE = SC_NUMVARS * 8"

definition SC_CONST :: u64 where
  "SC_CONST = 0xdeadbeefdeadbeef"

definition get32 :: "u8 list \<Rightarrow> nat \<Rightarrow> u32" where
  "get32 p off =
     ucast (p ! off) OR push_bit 8 (ucast (p ! (off + 1))) OR
     push_bit 16 (ucast (p ! (off + 2))) OR push_bit 24 (ucast (p ! (off + 3)))"

definition get64 :: "u8 list \<Rightarrow> nat \<Rightarrow> u64" where
  "get64 p off =
     ucast (p ! off) OR push_bit 8 (ucast (p ! (off + 1))) OR
     push_bit 16 (ucast (p ! (off + 2))) OR push_bit 24 (ucast (p ! (off + 3))) OR
     push_bit 32 (ucast (p ! (off + 4))) OR push_bit 40 (ucast (p ! (off + 5))) OR
     push_bit 48 (ucast (p ! (off + 6))) OR push_bit 56 (ucast (p ! (off + 7)))"

text \<open>The twelve words \<open>data[0..11]\<close> seen through a \<open>uint64_t *\<close> at byte offset \<open>off\<close>.\<close>

definition p64 :: "u8 list \<Rightarrow> nat \<Rightarrow> u64 list" where
  "p64 p off =
     [get64 p off, get64 p (off + 8), get64 p (off + 16), get64 p (off + 24),
      get64 p (off + 32), get64 p (off + 40), get64 p (off + 48), get64 p (off + 56),
      get64 p (off + 64), get64 p (off + 72), get64 p (off + 80), get64 p (off + 88)]"

text \<open>\<open>memcpy(dst + doff, src + soff, n)\<close> and \<open>memset(dst + off, v, n)\<close>.\<close>

definition memcpy :: "u8 list \<Rightarrow> nat \<Rightarrow> u8 list \<Rightarrow> nat \<Rightarrow> nat \<Rightarrow> u8 list" where
  "memcpy dst doff src soff n = take doff dst @ take n (drop soff src) @ drop (doff + n) dst"

definition memset :: "u8 list \<Rightarrow> nat \<Rightarrow> u8 \<Rightarrow> nat \<Rightarrow> u8 list" where
  "memset dst off v n = take off dst @ replicate n v @ drop (off + n) dst"

text \<open>The cast \<open>(uint8_t)\<close> of an integer expression, read back as a count.\<close>

definition uint8_t :: "int \<Rightarrow> nat" where
  "uint8_t i = nat (i mod 256)"

section \<open>The rotation primitive\<close>

text \<open>
  \<open>rot64(x, k) = (x << k) | (x >> (64 - k))\<close> with \<open>int k\<close>.  In C a shift of a
  64-bit value by a negative count or by 64 or more is undefined; that branch is the
  value \<open>None\<close>, and every routine that rotates returns an option.
\<close>

definition shift_ok :: "int \<Rightarrow> bool" where
  "shift_ok n = (0 \<le> n \<and> n < 64)"

definition rot64 :: "u64 \<Rightarrow> int \<Rightarrow> u64 option" where
  "rot64 x k =
     (if shift_ok k \<and> shift_ok (64 - k)
      then Some (push_bit (nat k) x OR drop_bit (nat (64 - k)) x)
      else None)"

section \<open>The long mixer and finalizer\<close>

type_synonym acc12 = "u64 \<times> u64 \<times> u64 \<times> u64 \<times> u64 \<times> u64 \<times> u64 \<times> u64 \<times> u64 \<times> u64 \<times> u64 \<times> u64"

definition mix :: "u64 list \<Rightarrow> acc12 \<Rightarrow> acc12 option" where
  "mix data h = (case h of (h0, h1, h2, h3, h4, h5, h6, h7, h8, h9, h10, h11) \<Rightarrow> do {
     let h0 = h0 + data ! 0;   h11 \<leftarrow> rot64 h11 32; let h9 = h9 XOR h1;   let h11 = h11 + h10; let h1 = h1 + h10;
     let h1 = h1 + data ! 1;   h0 \<leftarrow> rot64 h0 41;   let h10 = h10 XOR h2; let h0 = h0 + h11;   let h2 = h2 + h11;
     let h2 = h2 + data ! 2;   h1 \<leftarrow> rot64 h1 12;   let h11 = h11 XOR h3; let h1 = h1 + h0;    let h3 = h3 + h0;
     let h3 = h3 + data ! 3;   h2 \<leftarrow> rot64 h2 24;   let h0 = h0 XOR h4;   let h2 = h2 + h1;    let h4 = h4 + h1;
     let h4 = h4 + data ! 4;   h3 \<leftarrow> rot64 h3 8;    let h1 = h1 XOR h5;   let h3 = h3 + h2;    let h5 = h5 + h2;
     let h5 = h5 + data ! 5;   h4 \<leftarrow> rot64 h4 42;   let h2 = h2 XOR h6;   let h4 = h4 + h3;    let h6 = h6 + h3;
     let h6 = h6 + data ! 6;   h5 \<leftarrow> rot64 h5 32;   let h3 = h3 XOR h7;   let h5 = h5 + h4;    let h7 = h7 + h4;
     let h7 = h7 + data ! 7;   h6 \<leftarrow> rot64 h6 13;   let h4 = h4 XOR h8;   let h6 = h6 + h5;    let h8 = h8 + h5;
     let h8 = h8 + data ! 8;   h7 \<leftarrow> rot64 h7 30;   let h5 = h5 XOR h9;   let h7 = h7 + h6;    let h9 = h9 + h6;
     let h9 = h9 + data ! 9;   h8 \<leftarrow> rot64 h8 20;   let h6 = h6 XOR h10;  let h8 = h8 + h7;    let h10 = h10 + h7;
     let h10 = h10 + data ! 10; h9 \<leftarrow> rot64 h9 47;  let h7 = h7 XOR h11;  let h9 = h9 + h8;    let h11 = h11 + h8;
     let h11 = h11 + data ! 11; h10 \<leftarrow> rot64 h10 16; let h8 = h8 XOR h0;  let h10 = h10 + h9;  let h0 = h0 + h9;
     Some (h0, h1, h2, h3, h4, h5, h6, h7, h8, h9, h10, h11)
   })"

text \<open>The function \<open>end\<close> of the source; \<open>end\<close> is a keyword here.\<close>

definition end_mix :: "acc12 \<Rightarrow> acc12 option" where
  "end_mix h = (case h of (h0, h1, h2, h3, h4, h5, h6, h7, h8, h9, h10, h11) \<Rightarrow> do {
     h0 \<leftarrow> rot64 h0 29;   let h2 = h2 XOR h11;  let h0 = h0 + h2;
     h1 \<leftarrow> rot64 h1 52;   let h3 = h3 XOR h0;   let h1 = h1 + h3;
     h2 \<leftarrow> rot64 h2 31;   let h4 = h4 XOR h1;   let h2 = h2 + h4;
     h3 \<leftarrow> rot64 h3 43;   let h5 = h5 XOR h2;   let h3 = h3 + h5;
     h4 \<leftarrow> rot64 h4 56;   let h6 = h6 XOR h3;   let h4 = h4 + h6;
     h5 \<leftarrow> rot64 h5 34;   let h7 = h7 XOR h4;   let h5 = h5 + h7;
     h6 \<leftarrow> rot64 h6 21;   let h8 = h8 XOR h5;   let h6 = h6 + h8;
     h7 \<leftarrow> rot64 h7 17;   let h9 = h9 XOR h6;   let h7 = h7 + h9;
     h8 \<leftarrow> rot64 h8 44;   let h10 = h10 XOR h7; let h8 = h8 + h10;
     h9 \<leftarrow> rot64 h9 38;   let h11 = h11 XOR h8; let h9 = h9 + h11;
     h10 \<leftarrow> rot64 h10 50; let h0 = h0 XOR h9;   let h10 = h10 + h0;
     h11 \<leftarrow> rot64 h11 50; let h1 = h1 XOR h10;  let h11 = h11 + h1;
     h0 \<leftarrow> rot64 h0 29;   let h2 = h2 XOR h11;  let h0 = h0 + h2;
     h1 \<leftarrow> rot64 h1 52;   let h3 = h3 XOR h0;   let h1 = h1 + h3;
     h2 \<leftarrow> rot64 h2 31;   let h4 = h4 XOR h1;   let h2 = h2 + h4;
     h3 \<leftarrow> rot64 h3 43;   let h5 = h5 XOR h2;   let h3 = h3 + h5;
     h4 \<leftarrow> rot64 h4 56;   let h6 = h6 XOR h3;   let h4 = h4 + h6;
     h5 \<leftarrow> rot64 h5 34;   let h7 = h7 XOR h4;   let h5 = h5 + h7;
     h6 \<leftarrow> rot64 h6 21;   let h8 = h8 XOR h5;   let h6 = h6 + h8;
     h7 \<leftarrow> rot64 h7 17;   let h9 = h9 XOR h6;   let h7 = h7 + h9;
     h8 \<leftarrow> rot64 h8 44;   let h10 = h10 XOR h7; let h8 = h8 + h10;
     h9 \<leftarrow> rot64 h9 38;   let h11 = h11 XOR h8; let h9 = h9 + h11;
     h10 \<leftarrow> rot64 h10 50; let h0 = h0 XOR h9;   let h10 = h10 + h0;
     h11 \<leftarrow> rot64 h11 50; let h1 = h1 XOR h10;  let h11 = h11 + h1;
     Some (h0, h1, h2, h3, h4, h5, h6, h7, h8, h9, h10, h11)
   })"

section \<open>The short mixer and finalizer\<close>

type_synonym acc4 = "u64 \<times> u64 \<times> u64 \<times> u64"

definition short_mix :: "acc4 \<Rightarrow> acc4 option" where
  "short_mix h = (case h of (h0, h1, h2, h3) \<Rightarrow> do {
     h2 \<leftarrow> rot64 h2 50;  let h2 = h2 + h3;  let h0 = h0 XOR h2;
     h3 \<leftarrow> rot64 h3 52;  let h3 = h3 + h0;  let h1 = h1 XOR h3;
     h0 \<leftarrow> rot64 h0 30;  let h0 = h0 + h1;  let h2 = h2 XOR h0;
     h1 \<leftarrow> rot64 h1 41;  let h1 = h1 + h2;  let h3 = h3 XOR h1;
     h2 \<leftarrow> rot64 h2 54;  let h2 = h2 + h3;  let h0 = h0 XOR h2;
     h3 \<leftarrow> rot64 h3 48;  let h3 = h3 + h0;  let h1 = h1 XOR h3;
     h0 \<leftarrow> rot64 h0 38;  let h0 = h0 + h1;  let h2 = h2 XOR h0;
     h1 \<leftarrow> rot64 h1 37;  let h1 = h1 + h2;  let h3 = h3 XOR h1;
     h2 \<leftarrow> rot64 h2 62;  let h2 = h2 + h3;  let h0 = h0 XOR h2;
     h3 \<leftarrow> rot64 h3 34;  let h3 = h3 + h0;  let h1 = h1 XOR h3;
     h0 \<leftarrow> rot64 h0 5;   let h0 = h0 + h1;  let h2 = h2 XOR h0;
     h1 \<leftarrow> rot64 h1 36;  let h1 = h1 + h2;  let h3 = h3 XOR h1;
     Some (h0, h1, h2, h3)
   })"

definition short_end :: "acc4 \<Rightarrow> acc4 option" where
  "short_end h = (case h of (h0, h1, h2, h3) \<Rightarrow> do {
     let h3 = h3 XOR h2;  h2 \<leftarrow> rot64 h2 15;  let h3 = h3 + h2;
     let h0 = h0 XOR h3;  h3 \<leftarrow> rot64 h3 52;  let h0 = h0 + h3;
     let h1 = h1 XOR h0;  h0 \<leftarrow> rot64 h0 26;  let h1 = h1 + h0;
     let h2 = h2 XOR h1;  h1 \<leftarrow> rot64 h1 51;  let h2 = h2 + h1;
     let h3 = h3 XOR h2;  h2 \<leftarrow> rot64 h2 28;  let h3 = h3 + h2;
     let h0 = h0 XOR h3;  h3 \<leftarrow> rot64 h3 9;   let h0 = h0 + h3;
     let h1 = h1 XOR h0;  h0 \<leftarrow> rot64 h0 47;  let h1 = h1 + h0;
     let h2 = h2 XOR h1;  h1 \<leftarrow> rot64 h1 54;  let h2 = h2 + h1;
     let h3 = h3 XOR h2;  h2 \<leftarrow> rot64 h2 32;  let h3 = h3 + h2;
     let h0 = h0 XOR h3;  h3 \<leftarrow> rot64 h3 25;  let h0 = h0 + h3;
     let h1 = h1 XOR h0;  h0 \<leftarrow> rot64 h0 63;  let h1 = h1 + h0;
     Some (h0, h1, h2, h3)
   })"

section \<open>The short-hash routine\<close>

text \<open>
  \<open>spooky_shorthash(message, len, hash1, hash2)\<close> reads its seeds from \<open>*hash1\<close>,
  \<open>*hash2\<close> and writes the result there.  It is modelled in the order of the source:
  the loop over complete 32-byte sets, the block guarded by \<open>len > 15\<close>, the
  statement that puts the length into \<open>d\<close>, the \<open>switch\<close> over the last 0..15
  bytes, and \<open>short_end\<close>.
\<close>

function short_loop :: "u8 list \<Rightarrow> nat \<Rightarrow> nat \<Rightarrow> acc4 \<Rightarrow> (nat \<times> acc4) option" where
  "short_loop p off endp (a, b, c, d) =
     (if off < endp then do {
        let c = c + get64 p off;
        let d = d + get64 p (off + 8);
        (a, b, c, d) \<leftarrow> short_mix (a, b, c, d);
        let a = a + get64 p (off + 16);
        let b = b + get64 p (off + 24);
        short_loop p (off + 32) endp (a, b, c, d)
      } else Some (off, (a, b, c, d)))"
  by pat_completeness auto
termination
  by (relation "measure (\<lambda>(p, off, endp, h). endp - off)") auto

declare short_loop.simps [simp del]

text \<open>
  Lines 211--231: the block \<open>if (len > 15) { ... }\<close>.  The result is the read
  pointer, the remaining byte count and the four variables.
\<close>

definition short_chunks :: "u8 list \<Rightarrow> nat \<Rightarrow> nat \<Rightarrow> acc4 \<Rightarrow> (nat \<times> nat \<times> acc4) option" where
  "short_chunks p len remainder h =
     (if len > 15 then do {
        let endp = (len div 32) * 32;
        (off, h) \<leftarrow> short_loop p 0 endp h;
        if remainder \<ge> 16 then (case h of (a, b, c, d) \<Rightarrow> do {
          let c = c + get64 p off;
          let d = d + get64 p (off + 8);
          h \<leftarrow> short_mix (a, b, c, d);
          Some (off + 16, remainder - 16, h)
        }) else Some (off, remainder, h)
      } else Some (0, remainder, h))"

text \<open>Line 234: \<open>d = ((uint64_t)len) << 56;\<close>, an assignment to the running \<open>d\<close>.\<close>

definition short_length :: "nat \<Rightarrow> acc4 \<Rightarrow> acc4" where
  "short_length len h = (case h of (a, b, c, d) \<Rightarrow>
     (a, b, c, push_bit 56 (of_nat len :: u64)))"

text \<open>
  The \<open>switch (remainder)\<close> of lines 235--274.  A case without \<open>break\<close> falls
  through to the next label: each label is a function that ends in the label below it.
\<close>

definition case_12 :: "u8 list \<Rightarrow> nat \<Rightarrow> u64 \<Rightarrow> u64 \<Rightarrow> u64 \<times> u64" where
  "case_12 p off c d = (let d = d + ucast (get32 p (off + 8)); c = c + get64 p off in (c, d))"

definition case_13 :: "u8 list \<Rightarrow> nat \<Rightarrow> u64 \<Rightarrow> u64 \<Rightarrow> u64 \<times> u64" where
  "case_13 p off c d = case_12 p off c (d + push_bit 32 (ucast (p ! (off + 12))))"

definition case_14 :: "u8 list \<Rightarrow> nat \<Rightarrow> u64 \<Rightarrow> u64 \<Rightarrow> u64 \<times> u64" where
  "case_14 p off c d = case_13 p off c (d + push_bit 40 (ucast (p ! (off + 13))))"

definition case_15 :: "u8 list \<Rightarrow> nat \<Rightarrow> u64 \<Rightarrow> u64 \<Rightarrow> u64 \<times> u64" where
  "case_15 p off c d = case_14 p off c (d + push_bit 48 (ucast (p ! (off + 14))))"

definition case_8 :: "u8 list \<Rightarrow> nat \<Rightarrow> u64 \<Rightarrow> u64 \<Rightarrow> u64 \<times> u64" where
  "case_8 p off c d = (c + get64 p off, d)"

definition case_9 :: "u8 list \<Rightarrow> nat \<Rightarrow> u64 \<Rightarrow> u64 \<Rightarrow> u64 \<times> u64" where
  "case_9 p off c d = case_8 p off c (d + ucast (p ! (off + 8)))"

definition case_10 :: "u8 list \<Rightarrow> nat \<Rightarrow> u64 \<Rightarrow> u64 \<Rightarrow> u64 \<times> u64" where
  "case_10 p off c d = case_9 p off c (d + push_bit 8 (ucast (p ! (off + 9))))"

definition case_11 :: "u8 list \<Rightarrow> nat \<Rightarrow> u64 \<Rightarrow> u64 \<Rightarrow> u64 \<times> u64" where
  "case_11 p off c d = case_10 p off c (d + push_bit 16 (ucast (p ! (off + 10))))"

definition case_4 :: "u8 list \<Rightarrow> nat \<Rightarrow> u64 \<Rightarrow> u64 \<Rightarrow> u64 \<times> u64" where
  "case_4 p off c d = (c + ucast (get32 p off), d)"

definition case_5 :: "u8 list \<Rightarrow> nat \<Rightarrow> u64 \<Rightarrow> u64 \<Rightarrow> u64 \<times> u64" where
  "case_5 p off c d = case_4 p off (c + push_bit 32 (ucast (p ! (off + 4)))) d"

definition case_6 :: "u8 list \<Rightarrow> nat \<Rightarrow> u64 \<Rightarrow> u64 \<Rightarrow> u64 \<times> u64" where
  "case_6 p off c d = case_5 p off (c + push_bit 40 (ucast (p ! (off + 5)))) d"

definition case_7 :: "u8 list \<Rightarrow> nat \<Rightarrow> u64 \<Rightarrow> u64 \<Rightarrow> u64 \<times> u64" where
  "case_7 p off c d = case_6 p off (c + push_bit 48 (ucast (p ! (off + 6)))) d"

definition case_1 :: "u8 list \<Rightarrow> nat \<Rightarrow> u64 \<Rightarrow> u64 \<Rightarrow> u64 \<times> u64" where
  "case_1 p off c d = (c + ucast (p ! off), d)"

definition case_2 :: "u8 list \<Rightarrow> nat \<Rightarrow> u64 \<Rightarrow> u64 \<Rightarrow> u64 \<times> u64" where
  "case_2 p off c d = case_1 p off (c + push_bit 8 (ucast (p ! (off + 1)))) d"

definition case_3 :: "u8 list \<Rightarrow> nat \<Rightarrow> u64 \<Rightarrow> u64 \<Rightarrow> u64 \<times> u64" where
  "case_3 p off c d = case_2 p off (c + push_bit 16 (ucast (p ! (off + 2)))) d"

definition case_0 :: "u64 \<Rightarrow> u64 \<Rightarrow> u64 \<times> u64" where
  "case_0 c d = (c + SC_CONST, d + SC_CONST)"

definition short_switch :: "u8 list \<Rightarrow> nat \<Rightarrow> nat \<Rightarrow> acc4 \<Rightarrow> acc4" where
  "short_switch p off remainder h = (case h of (a, b, c, d) \<Rightarrow>
     (let (c, d) =
        (if remainder = 15 then case_15 p off c d
         else if remainder = 14 then case_14 p off c d
         else if remainder = 13 then case_13 p off c d
         else if remainder = 12 then case_12 p off c d
         else if remainder = 11 then case_11 p off c d
         else if remainder = 10 then case_10 p off c d
         else if remainder = 9 then case_9 p off c d
         else if remainder = 8 then case_8 p off c d
         else if remainder = 7 then case_7 p off c d
         else if remainder = 6 then case_6 p off c d
         else if remainder = 5 then case_5 p off c d
         else if remainder = 4 then case_4 p off c d
         else if remainder = 3 then case_3 p off c d
         else if remainder = 2 then case_2 p off c d
         else if remainder = 1 then case_1 p off c d
         else if remainder = 0 then case_0 c d
         else (c, d))
      in (a, b, c, d)))"

definition spooky_shorthash :: "u8 list \<Rightarrow> nat \<Rightarrow> u64 \<Rightarrow> u64 \<Rightarrow> (u64 \<times> u64) option" where
  "spooky_shorthash message len hash1 hash2 = do {
     let remainder = len mod 32;
     let a = hash1;
     let b = hash2;
     let c = 0;
     let d = 0;
     (off, remainder, h) \<leftarrow> short_chunks message len remainder (a, b, c, d);
     let h = short_length len h;
     let h = short_switch message off remainder h;
     (a, b, c, d) \<leftarrow> short_end h;
     Some (a, b)
   }"

section \<open>The streaming state\<close>

text \<open>
  \<open>struct spooky_state\<close>: \<open>m_data\<close> is the array \<open>uint64_t[12]\<close> seen as its 96
  bytes, \<open>m_state\<close> the array \<open>uint64_t[12]\<close>.
\<close>

record spooky_state =
  m_data :: "u8 list"
  m_state :: "u64 list"
  m_length :: nat
  m_remainder :: nat

definition wf_state :: "spooky_state \<Rightarrow> bool" where
  "wf_state state =
     (length (m_data state) = SC_BLOCKSIZE \<and> length (m_state state) = SC_NUMVARS \<and>
      m_remainder state < SC_BLOCKSIZE)"

text \<open>
  \<open>h0 = h3 = h6 = h9 = seed1; h1 = h4 = h7 = h10 = seed2; h2 = h5 = h8 = h11 = SC_CONST\<close>,
  the loading of \<open>h0..h11\<close> from \<open>m_state\<close> and the storing back.
\<close>

definition seed_vars :: "u64 \<Rightarrow> u64 \<Rightarrow> acc12" where
  "seed_vars s1 s2 =
     (s1, s2, SC_CONST, s1, s2, SC_CONST, s1, s2, SC_CONST, s1, s2, SC_CONST)"

definition load_vars :: "u64 list \<Rightarrow> acc12" where
  "load_vars st =
     (st ! 0, st ! 1, st ! 2, st ! 3, st ! 4, st ! 5, st ! 6, st ! 7, st ! 8, st ! 9,
      st ! 10, st ! 11)"

definition store_vars :: "u64 list \<Rightarrow> acc12 \<Rightarrow> u64 list" where
  "store_vars st h = (case h of (h0, h1, h2, h3, h4, h5, h6, h7, h8, h9, h10, h11) \<Rightarrow>
     st[0 := h0, 1 := h1, 2 := h2, 3 := h3, 4 := h4, 5 := h5, 6 := h6, 7 := h7,
        8 := h8, 9 := h9, 10 := h10, 11 := h11])"

definition spooky_init :: "spooky_state \<Rightarrow> u64 \<Rightarrow> u64 \<Rightarrow> spooky_state" where
  "spooky_init state seed1 seed2 =
     state\<lparr>m_length := 0, m_remainder := 0,
           m_state := (m_state state)[0 := seed1, 1 := seed2]\<rparr>"

text \<open>The loop \<open>for (; u.p64 < endp; u.p64 += SC_NUMVARS) mix(u.p64, ...)\<close>.\<close>

function mix_loop :: "u8 list \<Rightarrow> nat \<Rightarrow> nat \<Rightarrow> acc12 \<Rightarrow> acc12 option" where
  "mix_loop p off endp h =
     (if off < endp then do {
        h \<leftarrow> mix (p64 p off) h;
        mix_loop p (off + SC_BLOCKSIZE) endp h
      } else Some h)"
  by pat_completeness auto
termination
  by (relation "measure (\<lambda>(p, off, endp, h). endp - off)") (auto simp: SC_BLOCKSIZE_def SC_NUMVARS_def)

declare mix_loop.simps [simp del]

text \<open>
  In \<open>spooky_update\<close> the subtraction \<open>length -= prefix\<close> does not wrap: the branch is
  taken with \<open>length + m_remainder \<ge> 96\<close>, and \<open>prefix = 96 - m_remainder\<close> as long as
  \<open>m_remainder \<le> 96\<close>.
\<close>

definition spooky_update :: "spooky_state \<Rightarrow> u8 list \<Rightarrow> nat \<Rightarrow> spooky_state option" where
  "spooky_update state message len =
     (let newLength = len + m_remainder state in
      if newLength < SC_BLOCKSIZE then
        Some (state\<lparr>m_data := memcpy (m_data state) (m_remainder state) message 0 len,
                    m_length := len + m_length state,
                    m_remainder := uint8_t (int newLength)\<rparr>)
      else do {
        let h = (if m_length state < SC_BLOCKSIZE
                 then seed_vars (m_state state ! 0) (m_state state ! 1)
                 else load_vars (m_state state));
        let state = state\<lparr>m_length := len + m_length state\<rparr>;
        (state, h, off, len) \<leftarrow>
          (if m_remainder state \<noteq> 0 then do {
             let prefix = uint8_t (int SC_BLOCKSIZE - int (m_remainder state));
             let state = state\<lparr>m_data :=
                           memcpy (m_data state) (m_remainder state) message 0 prefix\<rparr>;
             h \<leftarrow> mix (p64 (m_data state) 0) h;
             Some (state, h, prefix, len - prefix)
           } else Some (state, h, 0, len));
        let endp = off + (len div SC_BLOCKSIZE) * SC_BLOCKSIZE;
        let remainder = uint8_t (int len - (int endp - int off));
        h \<leftarrow> mix_loop message off endp h;
        let state = (if remainder > 0
                     then state\<lparr>m_remainder := remainder,
                                m_data := memcpy (m_data state) 0 message endp remainder\<rparr>
                     else state);
        Some (state\<lparr>m_state := store_vars (m_state state) h\<rparr>)
      })"

text \<open>
  \<open>spooky_final(state, hash1, hash2)\<close>: the arguments \<open>hash1\<close>, \<open>hash2\<close> are the values
  the caller's two output variables hold at the call; the result is the state after the
  call and the values written to the two output variables.
\<close>

definition spooky_final :: "spooky_state \<Rightarrow> u64 \<Rightarrow> u64 \<Rightarrow> (spooky_state \<times> u64 \<times> u64) option" where
  "spooky_final state hash1 hash2 =
     (if m_length state < SC_BLOCKSIZE then do {
        (hash1, hash2) \<leftarrow> spooky_shorthash (m_data state) (m_length state) hash1 hash2;
        Some (state, hash1, hash2)
      } else do {
        let h = load_vars (m_state state);
        let remainder = uint8_t (int (m_remainder state));
        let prefix = uint8_t (int SC_BLOCKSIZE - int remainder);
        let state = state\<lparr>m_data := memset (m_data state) remainder 0 prefix\<rparr>;
        let state = state\<lparr>m_data :=
                      (m_data state)[SC_BLOCKSIZE - 1 := (of_nat (m_length state) :: u8)]\<rparr>;
        h \<leftarrow> mix (p64 (m_data state) 0) h;
        h \<leftarrow> end_mix h;
        Some (state, fst h, fst (snd h))
      })"

section \<open>The one-shot routines\<close>

text \<open>
  The local \<open>uint64_t buf[SC_NUMVARS]\<close> of \<open>spooky_hash128\<close> is not initialised; all of
  its 96 bytes are written by the \<open>memcpy\<close> and the \<open>memset\<close> before \<open>mix\<close> reads them,
  so the bytes it starts with never reach the result.
\<close>

definition local_buf :: "u8 list" where
  "local_buf = replicate SC_BLOCKSIZE 0"

definition spooky_hash128 :: "u8 list \<Rightarrow> nat \<Rightarrow> u64 \<Rightarrow> u64 \<Rightarrow> (u64 \<times> u64) option" where
  "spooky_hash128 message len hash1 hash2 =
     (if len < SC_BLOCKSIZE then spooky_shorthash message len hash1 hash2
      else do {
        let h = seed_vars hash1 hash2;
        let endp = (len div SC_BLOCKSIZE) * SC_BLOCKSIZE;
        h \<leftarrow> mix_loop message 0 endp h;
        let remainder = len - endp;
        let buf = memcpy local_buf 0 message endp remainder;
        let buf = memset buf remainder 0 (SC_BLOCKSIZE - remainder);
        let buf = buf[SC_BLOCKSIZE - 1 := (of_nat len :: u8)];
        h \<leftarrow> mix (p64 buf 0) h;
        h \<leftarrow> end_mix h;
        Some (fst h, fst (snd h))
      })"

definition spooky_hash64 :: "u8 list \<Rightarrow> nat \<Rightarrow> u64 \<Rightarrow> u64 option" where
  "spooky_hash64 message len seed = do {
     let hash1 = seed;
     (hash1, seed) \<leftarrow> spooky_hash128 message len hash1 seed;
     Some hash1
   }"

text \<open>A streaming session: \<open>spooky_update\<close> once per fragment, in order.\<close>

fun updates :: "spooky_state \<Rightarrow> u8 list list \<Rightarrow> spooky_state option" where
  "updates state [] = Some state"
| "updates state (f # fs) = do {
     state \<leftarrow> spooky_update state f (length f);
     updates state fs
   }"

section \<open>The long mixer as the specification words it\<close>

text \<open>
  The specification describes one application of the long mixer as twelve steps
  \<open>i = 0..11\<close> over the array \<open>h[0..11]\<close> with indices taken modulo 12 and the
  rotation amounts of a table.  This definition follows those words; it is compared with
  \<open>mix\<close> below.
\<close>

definition mix_rot :: "int list" where
  "mix_rot = [32, 41, 12, 24, 8, 42, 32, 13, 30, 20, 47, 16]"

definition mix_step_spec :: "u64 list \<Rightarrow> nat \<Rightarrow> u64 list \<Rightarrow> u64 list option" where
  "mix_step_spec data i h = do {
     let h = h[i := h ! i + data ! i];
     r \<leftarrow> rot64 (h ! ((i + 11) mod 12)) (mix_rot ! i);
     let h = h[(i + 11) mod 12 := r];
     let h = h[(i + 9) mod 12 := h ! ((i + 9) mod 12) XOR h ! ((i + 1) mod 12)];
     let h = h[(i + 11) mod 12 := h ! ((i + 11) mod 12) + h ! ((i + 10) mod 12)];
     let h = h[(i + 1) mod 12 := h ! ((i + 1) mod 12) + h ! ((i + 10) mod 12)];
     Some h
   }"

fun in_order :: "(nat \<Rightarrow> 'a \<Rightarrow> 'a option) \<Rightarrow> nat list \<Rightarrow> 'a \<Rightarrow> 'a option" where
  "in_order f [] h = Some h"
| "in_order f (i # is) h = do { h \<leftarrow> f i h; in_order f is h }"

definition mix_spec :: "u64 list \<Rightarrow> u64 list \<Rightarrow> u64 list option" where
  "mix_spec data h = in_order (mix_step_spec data) [0..<12] h"

definition vars_list :: "acc12 \<Rightarrow> u64 list" where
  "vars_list h = (case h of (h0, h1, h2, h3, h4, h5, h6, h7, h8, h9, h10, h11) \<Rightarrow>
     [h0, h1, h2, h3, h4, h5, h6, h7, h8, h9, h10, h11])"

text \<open>The value of a rotation whose count is in range.\<close>

definition rotl :: "u64 \<Rightarrow> int \<Rightarrow> u64" where
  "rotl x k = push_bit (nat k) x OR drop_bit (nat (64 - k)) x"

section \<open>The one-shot routine as the specification words it\<close>

text \<open>
  The specification of the one-shot routine: below 96 bytes the short-hash routine with
  the seeds passed through; otherwise the twelve accumulators seeded from the two seeds
  and the constant, the long mixer once per complete 96-byte block in message order,
  once more on the leftover bytes zero-padded to 96 bytes with the last byte overwritten
  by the length modulo 256, then the long finalizer, and the first two accumulators as
  the result.  Words are assembled from bytes in little-endian order.
\<close>

definition le64 :: "u8 list \<Rightarrow> u64" where
  "le64 bytes = foldr (\<lambda>b w. ucast b OR push_bit 8 w) bytes 0"

definition block_words :: "u8 list \<Rightarrow> u64 list" where
  "block_words blk = map (\<lambda>i. le64 (take 8 (drop (8 * i) blk))) [0..<12]"

definition complete_blocks :: "u8 list \<Rightarrow> u8 list list" where
  "complete_blocks M = map (\<lambda>k. take 96 (drop (96 * k) M)) [0..<length M div 96]"

definition final_block :: "u8 list \<Rightarrow> u8 list" where
  "final_block M =
     (let leftover = drop (96 * (length M div 96)) M
      in (leftover @ replicate (96 - length leftover) 0)[95 := of_nat (length M mod 256)])"

fun mix_all :: "u8 list list \<Rightarrow> acc12 \<Rightarrow> acc12 option" where
  "mix_all [] h = Some h"
| "mix_all (blk # blks) h = do { h \<leftarrow> mix (block_words blk) h; mix_all blks h }"

definition hash128_spec :: "u8 list \<Rightarrow> u64 \<Rightarrow> u64 \<Rightarrow> (u64 \<times> u64) option" where
  "hash128_spec M seed1 seed2 =
     (if length M < 96 then spooky_shorthash M (length M) seed1 seed2
      else do {
        let h = (seed1, seed2, 0xdeadbeefdeadbeef, seed1, seed2, 0xdeadbeefdeadbeef,
                 seed1, seed2, 0xdeadbeefdeadbeef, seed1, seed2, 0xdeadbeefdeadbeef);
        h \<leftarrow> mix_all (complete_blocks M) h;
        h \<leftarrow> mix (block_words (final_block M)) h;
        (h0, h1, rest) \<leftarrow> end_mix h;
        Some (h0, h1)
      })"

section \<open>The state that later calls observe\<close>

text \<open>
  \<open>spooky_update\<close> and the long path of \<open>spooky_final\<close> read \<open>m_state\<close>, \<open>m_length\<close>,
  \<open>m_remainder\<close> and the first \<open>m_remainder\<close> bytes of \<open>m_data\<close>; the rest of
  \<open>m_data\<close> is overwritten before it is read.  \<open>final_pad\<close> is the block the long path
  of \<open>spooky_final\<close> leaves in \<open>m_data\<close>: the buffered bytes, zeros up to 96 bytes, and
  the low byte of \<open>m_length\<close> in the last position.
\<close>

definition logical_state :: "spooky_state \<Rightarrow> u8 list \<times> u64 list \<times> nat \<times> nat" where
  "logical_state state =
     (take (m_remainder state) (m_data state), m_state state, m_length state,
      m_remainder state)"

definition final_pad :: "spooky_state \<Rightarrow> u8 list" where
  "final_pad state =
     (take (m_remainder state) (m_data state) @ replicate (96 - m_remainder state) 0)
       [95 := of_nat (m_length state)]"

section \<open>Concrete sessions\<close>

text \<open>
  A zeroed \<open>struct spooky_state\<close>; a 96-byte message cut into a fragment of 10 bytes
  and one of 86 bytes; the state the two updates leave behind; and a 16-byte message.
\<close>

definition zero_state :: spooky_state where
  "zero_state = \<lparr>m_data = replicate 96 0, m_state = [0, 0, 0, 0, 0, 0, 0, 0, 0, 0, 0, 0],
     m_length = 0, m_remainder = 0\<rparr>"

definition frag1 :: "u8 list" where
  "frag1 = 1 # replicate 9 0"

definition frag2 :: "u8 list" where
  "frag2 = replicate 86 0"

definition stale_state :: spooky_state where
  "stale_state = \<lparr>m_data = frag1 @ frag2,
     m_state = [2486098681750979507, 138538465099776, 13721091947369273964,
       7794618577426451018, 18269543657277257515, 13781196428410266913,
       11414246158330121289, 15562217197793467256, 10723709325363018386,
       4887149571603940548, 12086408695478398151, 2967101599338562412],
     m_length = 96, m_remainder = 10\<rparr>"

definition msg16 :: "u8 list" where
  "msg16 = 1 # replicate 15 0"

text \<open>
  A 100-byte message (the 96 bytes above and four bytes of value 1), and the state that
  \<open>spooky_init\<close> with seeds \<open>(0, 0)\<close> and one update with it leave behind: one block
  folded into \<open>m_state\<close>, four bytes buffered.
\<close>

definition msg100 :: "u8 list" where
  "msg100 = frag1 @ frag2 @ [1, 1, 1, 1]"

definition buffered_state :: spooky_state where
  "buffered_state = \<lparr>m_data = [1, 1, 1, 1] @ replicate 92 0,
     m_state = [2486098681750979507, 138538465099776, 13721091947369273964,
       7794618577426451018, 18269543657277257515, 13781196428410266913,
       11414246158330121289, 15562217197793467256, 10723709325363018386,
       4887149571603940548, 12086408695478398151, 2967101599338562412],
     m_length = 100, m_remainder = 4\<rparr>"

section \<open>Evaluation and totality lemmas\<close>

text \<open>
  Congruence rules that make the simplifier evaluate a \<open>do\<close> block in program order:
  the bound expression first, the continuation only after it has a value.
\<close>

lemma option_bind_weak_cong: "x = y \<Longrightarrow> Option.bind x f = Option.bind y f"
  by simp

lemmas cbv = option_bind_weak_cong let_weak_cong prod.case_cong_weak

lemma upt_12: "[0..<12] = [0, 1, 2, 3, 4, 5, 6, 7, 8, 9, 10, 11]"
  by (simp add: upt_rec)

lemma mix_tuple: "mix data (h0, h1, h2, h3, h4, h5, h6, h7, h8, h9, h10, h11) = do {
     let h0 = h0 + data ! 0;   h11 \<leftarrow> rot64 h11 32; let h9 = h9 XOR h1;   let h11 = h11 + h10; let h1 = h1 + h10;
     let h1 = h1 + data ! 1;   h0 \<leftarrow> rot64 h0 41;   let h10 = h10 XOR h2; let h0 = h0 + h11;   let h2 = h2 + h11;
     let h2 = h2 + data ! 2;   h1 \<leftarrow> rot64 h1 12;   let h11 = h11 XOR h3; let h1 = h1 + h0;    let h3 = h3 + h0;
     let h3 = h3 + data ! 3;   h2 \<leftarrow> rot64 h2 24;   let h0 = h0 XOR h4;   let h2 = h2 + h1;    let h4 = h4 + h1;
     let h4 = h4 + data ! 4;   h3 \<leftarrow> rot64 h3 8;    let h1 = h1 XOR h5;   let h3 = h3 + h2;    let h5 = h5 + h2;
     let h5 = h5 + data ! 5;   h4 \<leftarrow> rot64 h4 42;   let h2 = h2 XOR h6;   let h4 = h4 + h3;    let h6 = h6 + h3;
     let h6 = h6 + data ! 6;   h5 \<leftarrow> rot64 h5 32;   let h3 = h3 XOR h7;   let h5 = h5 + h4;    let h7 = h7 + h4;
     let h7 = h7 + data ! 7;   h6 \<leftarrow> rot64 h6 13;   let h4 = h4 XOR h8;   let h6 = h6 + h5;    let h8 = h8 + h5;
     let h8 = h8 + data ! 8;   h7 \<leftarrow> rot64 h7 30;   let h5 = h5 XOR h9;   let h7 = h7 + h6;    let h9 = h9 + h6;
     let h9 = h9 + data ! 9;   h8 \<leftarrow> rot64 h8 20;   let h6 = h6 XOR h10;  let h8 = h8 + h7;    let h10 = h10 + h7;
     let h10 = h10 + data ! 10; h9 \<leftarrow> rot64 h9 47;  let h7 = h7 XOR h11;  let h9 = h9 + h8;    let h11 = h11 + h8;
     let h11 = h11 + data ! 11; h10 \<leftarrow> rot64 h10 16; let h8 = h8 XOR h0;  let h10 = h10 + h9;  let h0 = h0 + h9;
     Some (h0, h1, h2, h3, h4, h5, h6, h7, h8, h9, h10, h11)
   }"
  by (simp only: mix_def prod.case)

lemma rot64_rotl: "1 \<le> k \<Longrightarrow> k \<le> 63 \<Longrightarrow> rot64 x k = Some (rotl x k)"
  by (simp add: rot64_def shift_ok_def rotl_def)

lemma bind_not_None: "m \<noteq> None \<Longrightarrow> (\<And>x. f x \<noteq> None) \<Longrightarrow> Option.bind m f \<noteq> None"
  by (cases m) simp_all

lemma Let_not_None: "(\<And>x. f x \<noteq> None) \<Longrightarrow> Let a f \<noteq> None"
  by simp

lemma case_prod_not_None: "(\<And>a b. f a b \<noteq> None) \<Longrightarrow> case_prod f p \<noteq> None"
  by (cases p) simp

lemma rot64_defined_iff: "(rot64 x k \<noteq> None) = (1 \<le> k \<and> k \<le> 63)"
  by (auto simp: rot64_def shift_ok_def)

lemmas not_None_intros = bind_not_None Let_not_None case_prod_not_None

lemma mix_total: "mix data h \<noteq> None"
  unfolding mix_def by (intro not_None_intros) (simp_all add: rot64_def shift_ok_def)

lemma end_mix_total: "end_mix h \<noteq> None"
  unfolding end_mix_def by (intro not_None_intros) (simp_all add: rot64_def shift_ok_def)

lemma short_mix_total: "short_mix h \<noteq> None"
  unfolding short_mix_def by (intro not_None_intros) (simp_all add: rot64_def shift_ok_def)

lemma short_end_total: "short_end h \<noteq> None"
  unfolding short_end_def by (intro not_None_intros) (simp_all add: rot64_def shift_ok_def)

lemma short_loop_total: "short_loop p off endp h \<noteq> None"
proof (induction p off endp h rule: short_loop.induct)
  case (1 p off endp a b c d)
  show ?case
  proof (cases "off < endp")
    case True
    obtain a' b' c' d' where
      m: "short_mix (a, b, c + get64 p off, d + get64 p (off + 8)) = Some (a', b', c', d')"
      using short_mix_total [of "(a, b, c + get64 p off, d + get64 p (off + 8))"]
      by (metis not_None_eq surj_pair)
    from 1 [OF True refl refl, of "(a', b', c', d')" a' "(b', c', d')" b' "(c', d')" c' d' ] m True
    show ?thesis
      by (simp add: short_loop.simps [of p off] Let_def)
  next
    case False
    then show ?thesis by (simp add: short_loop.simps [of p off])
  qed
qed

lemma mix_loop_total: "mix_loop p off endp h \<noteq> None"
proof (induction p off endp h rule: mix_loop.induct)
  case (1 p off endp h)
  show ?case
  proof (cases "off < endp")
    case True
    obtain h' where m: "mix (p64 p off) h = Some h'"
      using mix_total [of "p64 p off" h] by auto
    from 1 [OF True, of h'] m True show ?thesis
      by (simp add: mix_loop.simps [of p off])
  next
    case False
    then show ?thesis by (simp add: mix_loop.simps [of p off])
  qed
qed

lemma if_not_None: "(c \<Longrightarrow> a \<noteq> None) \<Longrightarrow> (\<not> c \<Longrightarrow> b \<noteq> None) \<Longrightarrow> (if c then a else b) \<noteq> None"
  by simp

lemmas total_intros = not_None_intros if_not_None mix_total end_mix_total short_mix_total
  short_end_total short_loop_total mix_loop_total

lemma short_chunks_total: "short_chunks p len remainder h \<noteq> None"
  unfolding short_chunks_def by (intro total_intros) simp_all

lemma spooky_shorthash_total: "spooky_shorthash message len hash1 hash2 \<noteq> None"
  unfolding spooky_shorthash_def by (intro total_intros short_chunks_total) simp_all

lemma spooky_hash128_total: "spooky_hash128 message len hash1 hash2 \<noteq> None"
  unfolding spooky_hash128_def by (intro total_intros spooky_shorthash_total) simp_all

lemma spooky_hash64_total: "spooky_hash64 message len seed \<noteq> None"
  unfolding spooky_hash64_def by (intro total_intros spooky_hash128_total) simp_all

lemma spooky_update_total: "spooky_update state message len \<noteq> None"
  unfolding spooky_update_def by (intro total_intros) simp_all

lemma spooky_final_total: "spooky_final state hash1 hash2 \<noteq> None"
  unfolding spooky_final_def by (intro total_intros spooky_shorthash_total) simp_all

section \<open>The long mixer\<close>

lemma mix_refines_spec_tuple:
  "map_option vars_list (mix data (h0, h1, h2, h3, h4, h5, h6, h7, h8, h9, h10, h11)) =
   mix_spec data [h0, h1, h2, h3, h4, h5, h6, h7, h8, h9, h10, h11]"
  by (simp add: mix_tuple mix_spec_def upt_12 mix_step_spec_def mix_rot_def rot64_rotl
      Let_def vars_list_def cong: cbv)

text \<open>
  Claim C7.  For every data block and every accumulator vector, one application of the
  long mixer \<open>mix\<close> of the source is exactly the twelve steps \<open>i = 0..11\<close>, in order:
  \<open>h[i] += data[i]\<close>; \<open>h[(i+11)%12] = rot64(h[(i+11)%12], R[i])\<close> with
  \<open>R = {32,41,12,24,8,42,32,13,30,20,47,16}\<close>; \<open>h[(i+9)%12] ^= h[(i+1)%12]\<close>;
  \<open>h[(i+11)%12] += h[(i+10)%12]\<close>; \<open>h[(i+1)%12] += h[(i+10)%12]\<close>, all additions
  modulo \<open>2^64\<close>.
\<close>

theorem mix_refines_spec: "map_option vars_list (mix data h) = mix_spec data (vars_list h)"
proof -
  obtain h0 h1 h2 h3 h4 h5 h6 h7 h8 h9 h10 h11 where
    h: "h = (h0, h1, h2, h3, h4, h5, h6, h7, h8, h9, h10, h11)"
    by (metis surj_pair)
  show ?thesis
    unfolding h by (simp only: mix_refines_spec_tuple) (simp add: vars_list_def)
qed

section \<open>The one-shot routine\<close>

lemma take_Suc_drop:
  "off < length p \<Longrightarrow> take (Suc n) (drop off p) = p ! off # take n (drop (Suc off) p)"
  by (simp flip: Cons_nth_drop_Suc)

lemma take8_drop:
  assumes "off + 8 \<le> length p"
  shows "take 8 (drop off p) =
    [p ! off, p ! (off + 1), p ! (off + 2), p ! (off + 3), p ! (off + 4), p ! (off + 5),
     p ! (off + 6), p ! (off + 7)]"
proof -
  have "take (Suc (Suc (Suc (Suc (Suc (Suc (Suc (Suc 0)))))))) (drop off p) =
    [p ! off, p ! Suc off, p ! Suc (Suc off), p ! Suc (Suc (Suc off)),
     p ! Suc (Suc (Suc (Suc off))), p ! Suc (Suc (Suc (Suc (Suc off)))),
     p ! Suc (Suc (Suc (Suc (Suc (Suc off))))), p ! Suc (Suc (Suc (Suc (Suc (Suc (Suc off))))))]"
    using assms by (simp add: take_Suc_drop)
  then show ?thesis
    by (simp add: eval_nat_numeral)
qed

lemma le64_8: "le64 [b0, b1, b2, b3, b4, b5, b6, b7] =
     ucast b0 OR push_bit 8 (ucast b1) OR
     push_bit 16 (ucast b2) OR push_bit 24 (ucast b3) OR
     push_bit 32 (ucast b4) OR push_bit 40 (ucast b5) OR
     push_bit 48 (ucast b6) OR push_bit 56 (ucast b7)"
  by (simp add: le64_def push_bit_or push_bit_push_bit)

lemma get64_le64: "off + 8 \<le> length p \<Longrightarrow> get64 p off = le64 (take 8 (drop off p))"
  by (simp only: take8_drop le64_8 get64_def)

lemma p64_block_words:
  assumes "off + 96 \<le> length p"
  shows "p64 p off = block_words (take 96 (drop off p))"
proof -
  have "le64 (take 8 (drop (8 * i) (take 96 (drop off p)))) = get64 p (off + 8 * i)"
    if "i < 12" for i
  proof -
    have "take 8 (drop (8 * i) (take 96 (drop off p))) = take 8 (drop (off + 8 * i) p)"
      using that by (simp add: drop_take min_def add.commute)
    then show ?thesis using that assms by (simp add: get64_le64)
  qed
  then have b: "map (\<lambda>i. le64 (take 8 (drop (8 * i) (take 96 (drop off p))))) [0..<12] =
      map (\<lambda>i. get64 p (off + 8 * i)) [0..<12]"
    by (intro map_cong [OF refl]) simp
  have a: "p64 p off = map (\<lambda>i. get64 p (off + 8 * i)) [0..<12]"
    by (simp add: p64_def upt_12)
  show ?thesis
    by (simp only: a block_words_def b)
qed

lemma mix_loop_blocks:
  "off + 96 * n \<le> length p \<Longrightarrow>
   mix_loop p off (off + 96 * n) h =
   mix_all (map (\<lambda>k. take 96 (drop (off + 96 * k) p)) [0..<n]) h"
proof (induction n arbitrary: off h)
  case 0
  then show ?case by (simp add: mix_loop.simps [of p off])
next
  case (Suc n)
  have l: "[0..<Suc n] = 0 # map Suc [0..<n]"
    by (simp add: upt_conv_Cons map_Suc_upt del: upt_Suc)
  have b96: "SC_BLOCKSIZE = 96"
    by (simp add: SC_BLOCKSIZE_def SC_NUMVARS_def)
  have ih: "mix_loop p (off + 96) (off + 96 * Suc n) =
      mix_all (map (\<lambda>k. take 96 (drop (off + 96 * Suc k) p)) [0..<n])"
    using Suc.IH [of "off + 96"] Suc.prems by (intro ext) (simp add: add.assoc)
  have p: "p64 p off = block_words (take 96 (drop off p))"
    using Suc.prems by (intro p64_block_words) simp
  have "mix_loop p off (off + 96 * Suc n) h =
      mix (p64 p off) h \<bind> mix_loop p (off + SC_BLOCKSIZE) (off + 96 * Suc n)"
    by (subst mix_loop.simps) simp
  also have "\<dots> = mix (block_words (take 96 (drop off p))) h \<bind>
      mix_all (map (\<lambda>k. take 96 (drop (off + 96 * Suc k) p)) [0..<n])"
    unfolding p b96 ih ..
  also have "\<dots> = mix_all (map (\<lambda>k. take 96 (drop (off + 96 * k) p)) [0..<Suc n]) h"
    unfolding l by (simp add: o_def)
  finally show ?case .
qed

lemma of_nat_u8_mod: "(of_nat (n mod 256) :: u8) = of_nat n"
  by (simp add: word_of_nat_eq_iff take_bit_eq_mod)

lemma final_block_buf:
  assumes "96 \<le> length M"
  shows "(memset (memcpy local_buf 0 M (length M div SC_BLOCKSIZE * SC_BLOCKSIZE)
                   (length M - length M div SC_BLOCKSIZE * SC_BLOCKSIZE))
            (length M - length M div SC_BLOCKSIZE * SC_BLOCKSIZE) 0
            (SC_BLOCKSIZE - (length M - length M div SC_BLOCKSIZE * SC_BLOCKSIZE)))
          [SC_BLOCKSIZE - 1 := (of_nat (length M) :: u8)] = final_block M"
proof -
  define r where "r = length M - length M div 96 * 96"
  have r: "r < 96" "length (drop (length M div 96 * 96) M) = r"
    unfolding r_def by (simp_all add: minus_div_mult_eq_mod [symmetric])
  have b: "SC_BLOCKSIZE = 96"
    by (simp add: SC_BLOCKSIZE_def SC_NUMVARS_def)
  show ?thesis
    unfolding b r_def [symmetric] final_block_def
    using r by (simp add: memset_def memcpy_def local_buf_def Let_def mult.commute of_nat_u8_mod b)
qed

text \<open>
  Claim C6.  For every message shorter than 96 bytes \<open>spooky_hash128\<close> returns the
  short-hash routine's result with the two seeds passed straight through; for every
  longer message it seeds \<open>h0=h3=h6=h9=seed1\<close>, \<open>h1=h4=h7=h10=seed2\<close>,
  \<open>h2=h5=h8=h11=0xdeadbeefdeadbeef\<close>, applies the long mixer once per complete 96-byte
  block in message order, then once to the leftover 0..95 bytes zero-padded to 96 bytes
  with the last byte overwritten by the length modulo 256, then applies the long
  finalizer and returns \<open>(h0, h1)\<close>.
\<close>

theorem hash128_refines_spec:
  "spooky_hash128 M (length M) seed1 seed2 = hash128_spec M seed1 seed2"
proof (cases "length M < 96")
  case True
  then show ?thesis
    by (simp add: spooky_hash128_def hash128_spec_def SC_BLOCKSIZE_def SC_NUMVARS_def)
next
  case False
  then have nl: "\<not> length M < SC_BLOCKSIZE" and ge: "96 \<le> length M"
    by (simp_all add: SC_BLOCKSIZE_def SC_NUMVARS_def)
  have blocks: "mix_loop M 0 (length M div SC_BLOCKSIZE * SC_BLOCKSIZE) h =
      mix_all (complete_blocks M) h" for h
    using mix_loop_blocks [of 0 "length M div 96" M h]
    by (simp add: complete_blocks_def mult.commute SC_BLOCKSIZE_def SC_NUMVARS_def)
  have fb: "p64 (final_block M) 0 = block_words (final_block M)"
    using p64_block_words [of 0 "final_block M"]
    by (simp add: final_block_def Let_def)
  have e: "(end_mix h \<bind> (\<lambda>h. Some (fst h, fst (snd h)))) =
      (end_mix h \<bind> (\<lambda>(h0, h1, rest). Some (h0, h1)))" for h
    by (cases "end_mix h") (auto simp: split_beta)
  have "spooky_hash128 M (length M) seed1 seed2 = do {
      h \<leftarrow> mix_all (complete_blocks M) (seed_vars seed1 seed2);
      h \<leftarrow> mix (block_words (final_block M)) h;
      h \<leftarrow> end_mix h;
      Some (fst h, fst (snd h)) }"
    by (simp only: spooky_hash128_def nl if_False Let_def final_block_buf [OF ge] blocks fb)
  also have "\<dots> = hash128_spec M seed1 seed2"
    using False by (simp add: hash128_spec_def seed_vars_def SC_CONST_def e)
  finally show ?thesis .
qed

section \<open>What the final call does to the state\<close>

lemma b96: "SC_BLOCKSIZE = 96"
  by (simp add: SC_BLOCKSIZE_def SC_NUMVARS_def)

lemma uint8_t_nat: "n < 256 \<Longrightarrow> uint8_t (int n) = n"
  by (simp add: uint8_t_def)

lemma uint8_t_diff: "m \<le> n \<Longrightarrow> n - m < 256 \<Longrightarrow> uint8_t (int n - int m) = n - m"
  by (simp add: uint8_t_def nat_diff_distrib' flip: of_nat_diff)

lemma final_long:
  assumes "wf_state state" "96 \<le> m_length state"
  shows "spooky_final state hash1 hash2 = do {
     h \<leftarrow> mix (p64 (final_pad state) 0) (load_vars (m_state state));
     h \<leftarrow> end_mix h;
     Some (state\<lparr>m_data := final_pad state\<rparr>, fst h, fst (snd h)) }"
proof -
  have r: "m_remainder state < 96" "length (m_data state) = 96"
    using assms by (simp_all add: wf_state_def b96)
  then have u: "uint8_t (int (m_remainder state)) = m_remainder state"
    "uint8_t (96 - int (m_remainder state)) = 96 - m_remainder state"
    using uint8_t_diff [of "m_remainder state" 96] by (simp_all add: uint8_t_nat)
  have pad: "(memset (m_data state) (m_remainder state) 0 (96 - m_remainder state))
      [95 := of_nat (m_length state)] = final_pad state"
    using r by (simp add: memset_def final_pad_def)
  show ?thesis
    using assms(2) by (simp add: spooky_final_def b96 Let_def u pad)
qed

lemma final_short:
  "m_length state < 96 \<Longrightarrow>
   spooky_final state hash1 hash2 =
   map_option (\<lambda>out. (state, out)) (spooky_shorthash (m_data state) (m_length state) hash1 hash2)"
  by (cases "spooky_shorthash (m_data state) (m_length state) hash1 hash2")
    (auto simp: spooky_final_def b96)

lemma length_final_pad:
  "m_remainder state < 96 \<Longrightarrow> length (m_data state) = 96 \<Longrightarrow> length (final_pad state) = 96"
  by (simp add: final_pad_def)

lemma take_final_pad:
  "m_remainder state < 96 \<Longrightarrow> length (m_data state) = 96 \<Longrightarrow>
   take (m_remainder state) (final_pad state) = take (m_remainder state) (m_data state)"
  by (simp add: final_pad_def take_update_swap list_update_beyond)


lemma uint8_rem: "uint8_t (int len - (int (off + len div 96 * 96) - int off)) = len mod 96"
proof -
  have "int len - (int (off + len div 96 * 96) - int off) = int (len mod 96)"
    by (simp add: minus_div_mult_eq_mod [symmetric] of_nat_diff)
  then show ?thesis
    by (simp only: uint8_t_nat [of "len mod 96"])
qed

lemma update_short:
  assumes "n + r < 96"
  shows "spooky_update \<lparr>m_data = x, m_state = st, m_length = l, m_remainder = r\<rparr> msg n =
        Some \<lparr>m_data = memcpy x r msg 0 n, m_state = st, m_length = n + l, m_remainder = n + r\<rparr>"
proof -
  have u: "uint8_t (int (n + r)) = n + r"
    using assms by (intro uint8_t_nat) simp
  show ?thesis
    using assms u by (simp add: spooky_update_def b96 Let_def)
qed

lemma update_long:
  assumes "96 \<le> n + r" "r < 96"
  shows "spooky_update \<lparr>m_data = x, m_state = st, m_length = l, m_remainder = r\<rparr> msg n =
    (if r \<noteq> 0
     then mix (p64 (memcpy x r msg 0 (96 - r)) 0)
            (if l < 96 then seed_vars (st ! 0) (st ! 1) else load_vars st) \<bind>
          (\<lambda>h. Some (\<lparr>m_data = memcpy x r msg 0 (96 - r), m_state = st,
                         m_length = n + l, m_remainder = r\<rparr>, h, 96 - r, n - (96 - r)))
     else Some (\<lparr>m_data = x, m_state = st, m_length = n + l, m_remainder = r\<rparr>,
                if l < 96 then seed_vars (st ! 0) (st ! 1) else load_vars st, 0, n)) \<bind>
    (\<lambda>(state, h, off, len).
        mix_loop msg off (off + len div 96 * 96) h \<bind>
        (\<lambda>h. Some
              ((if 0 < len mod 96
                then state\<lparr>m_remainder := len mod 96,
                       m_data := memcpy (m_data state) 0 msg (off + len div 96 * 96) (len mod 96)\<rparr>
                else state)
               \<lparr>m_state :=
                  store_vars
                   (m_state
                     (if 0 < len mod 96
                      then state\<lparr>m_remainder := len mod 96,
                             m_data := memcpy (m_data state) 0 msg (off + len div 96 * 96) (len mod 96)\<rparr>
                      else state))
                   h\<rparr>)))"
proof -
  have u: "uint8_t (96 - int r) = 96 - r"
    using uint8_t_diff [of r 96] assms by simp
  have nl: "\<not> n + r < 96" using assms by simp
  show ?thesis
    by (simp only: spooky_update_def b96 Let_def spooky_state.simps nl if_False simp_thms u
        spooky_state.update_convs of_nat_numeral uint8_rem)
qed

lemma update_logical:
  assumes "take r d = take r d'" "length d = 96" "length d' = 96" "r < 96" "n \<le> length msg"
  shows "map_option logical_state
           (spooky_update \<lparr>m_data = d, m_state = st, m_length = l, m_remainder = r\<rparr> msg n) =
         map_option logical_state
           (spooky_update \<lparr>m_data = d', m_state = st, m_length = l, m_remainder = r\<rparr> msg n)"
proof -
  consider (short) "n + r < 96" | (fill) "96 \<le> n + r" "r \<noteq> 0" | (direct) "96 \<le> n + r" "r = 0"
    by linarith
  then show ?thesis
  proof cases
    case short
    have tk: "take (n + r) (memcpy x r msg 0 n) = take r x @ take n msg" if "length x = 96" for x
      using that assms(4,5) short by (simp add: memcpy_def)
    show ?thesis
      using assms(1-3) by (simp add: update_short [OF short] logical_state_def tk)
  next
    case fill
    have d: "memcpy d r msg 0 (96 - r) = memcpy d' r msg 0 (96 - r)"
      using assms by (simp add: memcpy_def)
    show ?thesis
      by (simp only: update_long [OF fill(1) assms(4)] d fill(2) simp_thms if_True)
  next
    case direct
    have "n div 96 * 96 + n mod 96 = n"
      by simp
    then have "n mod 96 \<le> length msg - n div 96 * 96"
      using assms(5) by linarith
    then have len: "length (take (n mod 96) (drop (n div 96 * 96) msg)) = n mod 96"
      by (simp add: min_absorb2)
    have t: "take (n mod 96) (memcpy x 0 msg (n div 96 * 96) (n mod 96)) =
        take (n mod 96) (drop (n div 96 * 96) msg)" for x
      using len by (simp add: memcpy_def)
    have c: "spooky_update \<lparr>m_data = x, m_state = st, m_length = l, m_remainder = r\<rparr> msg n =
      mix_loop msg 0 (n div 96 * 96) (if l < 96 then seed_vars (st ! 0) (st ! 1) else load_vars st) \<bind>
        (\<lambda>h. Some \<lparr>m_data = (if 0 < n mod 96 then memcpy x 0 msg (n div 96 * 96) (n mod 96) else x),
                   m_state = store_vars st h, m_length = n + l,
                   m_remainder = (if 0 < n mod 96 then n mod 96 else 0)\<rparr>)" for x
      unfolding update_long [OF direct(1) assms(4)] using direct(2)
      by (simp cong: option_bind_weak_cong) simp
    show ?thesis
      unfolding c by (simp add: map_option_bind o_def logical_state_def t)
  qed
qed

lemma final_long_Some:
  assumes "wf_state state" "96 \<le> m_length state"
  shows "\<exists>out. spooky_final state hash1 hash2 = Some (state\<lparr>m_data := final_pad state\<rparr>, out)"
proof -
  obtain h where h: "mix (p64 (final_pad state) 0) (load_vars (m_state state)) = Some h"
    using mix_total by blast
  obtain h' where h': "end_mix h = Some h'"
    using end_mix_total by blast
  show ?thesis
    by (simp add: final_long [OF assms] h h')
qed

lemma final_long_out:
  assumes "wf_state state" "96 \<le> m_length state"
  shows "map_option snd (spooky_final state hash1 hash2) =
     mix (p64 (final_pad state) 0) (load_vars (m_state state)) \<bind>
       (\<lambda>h. end_mix h \<bind> (\<lambda>h. Some (fst h, fst (snd h))))"
  by (simp add: final_long [OF assms] map_option_bind o_def)

lemma final_pad_idem:
  assumes "wf_state state"
  shows "final_pad (state\<lparr>m_data := final_pad state\<rparr>) = final_pad state"
  using assms by (simp add: final_pad_def wf_state_def b96)

lemma wf_final_pad: "wf_state state \<Longrightarrow> wf_state (state\<lparr>m_data := final_pad state\<rparr>)"
  by (simp add: wf_state_def b96 final_pad_def)

text \<open>
  Claim C8.  When \<open>spooky_final\<close> is called on a state with \<open>m_length \<ge> 96\<close>, the only
  bytes of the state it modifies are \<open>m_data[m_remainder .. 96)\<close>: \<open>m_state\<close>,
  \<open>m_length\<close>, \<open>m_remainder\<close> and \<open>m_data[0 .. m_remainder)\<close> are unchanged, so a later
  \<open>spooky_update\<close> leaves the same observable state, and a later \<open>spooky_final\<close> returns
  the same words, as without the call.
\<close>

theorem final_long_frame:
  assumes "wf_state state" "96 \<le> m_length state" "n \<le> length msg"
  shows "\<exists>state' out. spooky_final state hash1 hash2 = Some (state', out) \<and>
     state' = state\<lparr>m_data := m_data state'\<rparr> \<and>
     m_state state' = m_state state \<and> m_length state' = m_length state \<and>
     m_remainder state' = m_remainder state \<and>
     take (m_remainder state) (m_data state') = take (m_remainder state) (m_data state) \<and>
     length (m_data state') = length (m_data state) \<and>
     logical_state state' = logical_state state \<and>
     map_option logical_state (spooky_update state' msg n) =
       map_option logical_state (spooky_update state msg n) \<and>
     map_option snd (spooky_final state' g1 g2) = map_option snd (spooky_final state g1 g2)"
proof -
  define state' where "state' = state\<lparr>m_data := final_pad state\<rparr>"
  obtain out where f: "spooky_final state hash1 hash2 = Some (state', out)"
    using final_long_Some [OF assms(1,2)] unfolding state'_def by blast
  have wf: "m_remainder state < 96" "length (m_data state) = 96"
    using assms(1) by (simp_all add: wf_state_def b96)
  have tk: "take (m_remainder state) (m_data state') = take (m_remainder state) (m_data state)"
    unfolding state'_def using wf by (simp add: take_final_pad)
  have len: "length (m_data state') = 96"
    unfolding state'_def using wf by (simp add: length_final_pad)
  have upd: "map_option logical_state (spooky_update state' msg n) =
       map_option logical_state (spooky_update state msg n)"
  proof -
    have s: "state = \<lparr>m_data = m_data state, m_state = m_state state, m_length = m_length state,
        m_remainder = m_remainder state\<rparr>"
      by simp
    have s': "state' = \<lparr>m_data = m_data state', m_state = m_state state, m_length = m_length state,
        m_remainder = m_remainder state\<rparr>"
      unfolding state'_def by simp
    show ?thesis
      by (subst s, subst s') (rule update_logical [OF tk len wf(2) wf(1) assms(3)])
  qed
  have fin: "map_option snd (spooky_final state' g1 g2) = map_option snd (spooky_final state g1 g2)"
  proof -
    have "wf_state state'" "96 \<le> m_length state'"
      unfolding state'_def using assms by (simp_all add: wf_final_pad)
    then show ?thesis
      using assms(1) by (simp add: final_long_out assms state'_def final_pad_idem)
  qed
  show ?thesis
    using f tk len wf upd fin by (auto simp: state'_def logical_state_def)
qed

text \<open>
  Claim C4, as the code has it.  For every well-formed state \<open>spooky_final\<close> returns, and
  leaves \<open>m_state\<close>, \<open>m_length\<close>, \<open>m_remainder\<close> and the buffered bytes
  \<open>m_data[0 .. m_remainder)\<close> unchanged.  Below 96 bytes the whole state is unchanged.
  From 96 bytes on, the zero padding and the length byte are written into \<open>m_data\<close>
  itself, in the region \<open>m_data[m_remainder .. 96)\<close>; there is no scratch copy.
\<close>

theorem final_frame:
  assumes "wf_state state"
  shows "\<exists>out. spooky_final state hash1 hash2 =
       Some (if m_length state < 96 then state else state\<lparr>m_data := final_pad state\<rparr>, out) \<and>
     length (final_pad state) = length (m_data state) \<and>
     take (m_remainder state) (final_pad state) = take (m_remainder state) (m_data state)"
proof -
  have wf: "m_remainder state < 96" "length (m_data state) = 96"
    using assms by (simp_all add: wf_state_def b96)
  show ?thesis
  proof (cases "m_length state < 96")
    case True
    obtain out where "spooky_shorthash (m_data state) (m_length state) hash1 hash2 = Some out"
      using spooky_shorthash_total by blast
    then show ?thesis
      using True wf by (simp add: final_short length_final_pad take_final_pad)
  next
    case False
    then show ?thesis
      using final_long_Some [OF assms, of hash1 hash2] wf
      by (simp add: length_final_pad take_final_pad)
  qed
qed

section \<open>Rotation counts\<close>

text \<open>
  Claim C10.  \<open>rot64\<close> is defined exactly for the counts \<open>1 \<le> k \<le> 63\<close>, and every
  rotation performed by the long mixer, the long finalizer, the short mixer, the short
  finalizer and the hash routines built from them uses such a count: none of these
  routines reaches the undefined-shift branch, for any input.
\<close>

theorem rot64_counts_in_range:
  "((rot64 x k \<noteq> None) = (1 \<le> k \<and> k \<le> 63)) \<and>
   mix data h \<noteq> None \<and> end_mix h \<noteq> None \<and>
   short_mix g \<noteq> None \<and> short_end g \<noteq> None \<and>
   spooky_shorthash message len hash1 hash2 \<noteq> None \<and>
   spooky_hash128 message len hash1 hash2 \<noteq> None \<and>
   spooky_hash64 message len seed \<noteq> None \<and>
   spooky_update state message len \<noteq> None \<and>
   spooky_final state hash1 hash2 \<noteq> None"
  by (simp only: rot64_defined_iff mix_total end_mix_total short_mix_total short_end_total
      spooky_shorthash_total spooky_hash128_total spooky_hash64_total spooky_update_total
      spooky_final_total not_False_eq_True simp_thms)

section \<open>The 64-bit one-shot routine\<close>

text \<open>
  Claim C9.  For every message and every seed \<open>s\<close>, \<open>spooky_hash64\<close> returns the first
  output word of \<open>spooky_hash128\<close> called with both seed words equal to \<open>s\<close>.
\<close>

theorem hash64_is_hash128_first_word:
  "spooky_hash64 message len seed = map_option fst (spooky_hash128 message len seed seed)"
  by (cases "spooky_hash128 message len seed seed") (auto simp: spooky_hash64_def)


section \<open>Evaluation of the mixers on concrete blocks\<close>

lemma end_mix_tuple: "end_mix (h0, h1, h2, h3, h4, h5, h6, h7, h8, h9, h10, h11) = do {
     h0 \<leftarrow> rot64 h0 29;   let h2 = h2 XOR h11;  let h0 = h0 + h2;
     h1 \<leftarrow> rot64 h1 52;   let h3 = h3 XOR h0;   let h1 = h1 + h3;
     h2 \<leftarrow> rot64 h2 31;   let h4 = h4 XOR h1;   let h2 = h2 + h4;
     h3 \<leftarrow> rot64 h3 43;   let h5 = h5 XOR h2;   let h3 = h3 + h5;
     h4 \<leftarrow> rot64 h4 56;   let h6 = h6 XOR h3;   let h4 = h4 + h6;
     h5 \<leftarrow> rot64 h5 34;   let h7 = h7 XOR h4;   let h5 = h5 + h7;
     h6 \<leftarrow> rot64 h6 21;   let h8 = h8 XOR h5;   let h6 = h6 + h8;
     h7 \<leftarrow> rot64 h7 17;   let h9 = h9 XOR h6;   let h7 = h7 + h9;
     h8 \<leftarrow> rot64 h8 44;   let h10 = h10 XOR h7; let h8 = h8 + h10;
     h9 \<leftarrow> rot64 h9 38;   let h11 = h11 XOR h8; let h9 = h9 + h11;
     h10 \<leftarrow> rot64 h10 50; let h0 = h0 XOR h9;   let h10 = h10 + h0;
     h11 \<leftarrow> rot64 h11 50; let h1 = h1 XOR h10;  let h11 = h11 + h1;
     h0 \<leftarrow> rot64 h0 29;   let h2 = h2 XOR h11;  let h0 = h0 + h2;
     h1 \<leftarrow> rot64 h1 52;   let h3 = h3 XOR h0;   let h1 = h1 + h3;
     h2 \<leftarrow> rot64 h2 31;   let h4 = h4 XOR h1;   let h2 = h2 + h4;
     h3 \<leftarrow> rot64 h3 43;   let h5 = h5 XOR h2;   let h3 = h3 + h5;
     h4 \<leftarrow> rot64 h4 56;   let h6 = h6 XOR h3;   let h4 = h4 + h6;
     h5 \<leftarrow> rot64 h5 34;   let h7 = h7 XOR h4;   let h5 = h5 + h7;
     h6 \<leftarrow> rot64 h6 21;   let h8 = h8 XOR h5;   let h6 = h6 + h8;
     h7 \<leftarrow> rot64 h7 17;   let h9 = h9 XOR h6;   let h7 = h7 + h9;
     h8 \<leftarrow> rot64 h8 44;   let h10 = h10 XOR h7; let h8 = h8 + h10;
     h9 \<leftarrow> rot64 h9 38;   let h11 = h11 XOR h8; let h9 = h9 + h11;
     h10 \<leftarrow> rot64 h10 50; let h0 = h0 XOR h9;   let h10 = h10 + h0;
     h11 \<leftarrow> rot64 h11 50; let h1 = h1 XOR h10;  let h11 = h11 + h1;
     Some (h0, h1, h2, h3, h4, h5, h6, h7, h8, h9, h10, h11)
   }"
  by (simp only: end_mix_def prod.case)

lemma short_mix_tuple: "short_mix (h0, h1, h2, h3) = do {
     h2 \<leftarrow> rot64 h2 50;  let h2 = h2 + h3;  let h0 = h0 XOR h2;
     h3 \<leftarrow> rot64 h3 52;  let h3 = h3 + h0;  let h1 = h1 XOR h3;
     h0 \<leftarrow> rot64 h0 30;  let h0 = h0 + h1;  let h2 = h2 XOR h0;
     h1 \<leftarrow> rot64 h1 41;  let h1 = h1 + h2;  let h3 = h3 XOR h1;
     h2 \<leftarrow> rot64 h2 54;  let h2 = h2 + h3;  let h0 = h0 XOR h2;
     h3 \<leftarrow> rot64 h3 48;  let h3 = h3 + h0;  let h1 = h1 XOR h3;
     h0 \<leftarrow> rot64 h0 38;  let h0 = h0 + h1;  let h2 = h2 XOR h0;
     h1 \<leftarrow> rot64 h1 37;  let h1 = h1 + h2;  let h3 = h3 XOR h1;
     h2 \<leftarrow> rot64 h2 62;  let h2 = h2 + h3;  let h0 = h0 XOR h2;
     h3 \<leftarrow> rot64 h3 34;  let h3 = h3 + h0;  let h1 = h1 XOR h3;
     h0 \<leftarrow> rot64 h0 5;   let h0 = h0 + h1;  let h2 = h2 XOR h0;
     h1 \<leftarrow> rot64 h1 36;  let h1 = h1 + h2;  let h3 = h3 XOR h1;
     Some (h0, h1, h2, h3)
   }"
  by (simp only: short_mix_def prod.case)

lemma short_end_tuple: "short_end (h0, h1, h2, h3) = do {
     let h3 = h3 XOR h2;  h2 \<leftarrow> rot64 h2 15;  let h3 = h3 + h2;
     let h0 = h0 XOR h3;  h3 \<leftarrow> rot64 h3 52;  let h0 = h0 + h3;
     let h1 = h1 XOR h0;  h0 \<leftarrow> rot64 h0 26;  let h1 = h1 + h0;
     let h2 = h2 XOR h1;  h1 \<leftarrow> rot64 h1 51;  let h2 = h2 + h1;
     let h3 = h3 XOR h2;  h2 \<leftarrow> rot64 h2 28;  let h3 = h3 + h2;
     let h0 = h0 XOR h3;  h3 \<leftarrow> rot64 h3 9;   let h0 = h0 + h3;
     let h1 = h1 XOR h0;  h0 \<leftarrow> rot64 h0 47;  let h1 = h1 + h0;
     let h2 = h2 XOR h1;  h1 \<leftarrow> rot64 h1 54;  let h2 = h2 + h1;
     let h3 = h3 XOR h2;  h2 \<leftarrow> rot64 h2 32;  let h3 = h3 + h2;
     let h0 = h0 XOR h3;  h3 \<leftarrow> rot64 h3 25;  let h0 = h0 + h3;
     let h1 = h1 XOR h0;  h0 \<leftarrow> rot64 h0 63;  let h1 = h1 + h0;
     Some (h0, h1, h2, h3)
   }"
  by (simp only: short_end_def prod.case)

lemmas eval_rot = rot64_def shift_ok_def Let_def

lemma mix_first_block:
  "mix [1, 0, 0, 0, 0, 0, 0, 0, 0, 0, 0, 0] (seed_vars 0 0) = Some
     (2486098681750979507, 138538465099776, 13721091947369273964, 7794618577426451018, 18269543657277257515, 13781196428410266913, 11414246158330121289, 15562217197793467256, 10723709325363018386, 4887149571603940548, 12086408695478398151, 2967101599338562412)"
  by (simp add: seed_vars_def SC_CONST_def mix_tuple eval_rot cong: cbv)

lemma mix_stale_block:
  "mix [1, 0, 0, 0, 0, 0, 0, 0, 0, 0, 0, 6917529027641081856]
     (2486098681750979507, 138538465099776, 13721091947369273964, 7794618577426451018, 18269543657277257515, 13781196428410266913, 11414246158330121289, 15562217197793467256, 10723709325363018386, 4887149571603940548, 12086408695478398151, 2967101599338562412) = Some
     (9240029512730754468, 9457451201797109716, 6632240453395711848, 1516221660038024049, 561101396872777468, 10535678841960766911, 104146062462358285, 8112681473924567931, 4826169158772624741, 18004582537917746771, 11467260925367334042, 16251536701894412272)"
  by (simp add: mix_tuple eval_rot cong: cbv)

lemma mix_empty_block:
  "mix [0, 0, 0, 0, 0, 0, 0, 0, 0, 0, 0, 6917529027641081856]
     (2486098681750979507, 138538465099776, 13721091947369273964, 7794618577426451018, 18269543657277257515, 13781196428410266913, 11414246158330121289, 15562217197793467256, 10723709325363018386, 4887149571603940548, 12086408695478398151, 2967101599338562412) = Some
     (2231253522079857408, 9457440206680831956, 6632238254372456296, 1515669705200880497, 561662147803467516, 10533992191123231679, 13956688551648892173, 3517890551169094139, 16302446569864442053, 10995817542383127471, 4314380705207677362, 9314864626520507728)"
  by (simp add: mix_tuple eval_rot cong: cbv)

lemma end_mix_stale:
  "end_mix (9240029512730754468, 9457451201797109716, 6632240453395711848, 1516221660038024049, 561101396872777468, 10535678841960766911, 104146062462358285, 8112681473924567931, 4826169158772624741, 18004582537917746771, 11467260925367334042, 16251536701894412272) = Some
     (1617054920273516715, 10039923820296458474, 10235906408725798253, 1563612548674981062, 3833570084614708857, 14368954527323411016, 8005401382320065218, 15544288389867333340, 8737393393171749694, 3786876850409442707, 4620747659787629114, 1651437668491423136)"
  by (simp add: end_mix_tuple eval_rot cong: cbv)

lemma end_mix_empty:
  "end_mix (2231253522079857408, 9457440206680831956, 6632238254372456296, 1515669705200880497, 561662147803467516, 10533992191123231679, 13956688551648892173, 3517890551169094139, 16302446569864442053, 10995817542383127471, 4314380705207677362, 9314864626520507728) = Some
     (17055614207066493661, 9452969034744099679, 11818419887824263521, 2558145305143475279, 11070156257249339955, 10905691780850316963, 4972592388677598230, 4484837771561539722, 16679970663316734855, 13182344361702819884, 7814519604827051044, 1970661089836163381)"
  by (simp add: end_mix_tuple eval_rot cong: cbv)

lemma p64_first_block: "p64 (frag1 @ frag2) 0 = [1, 0, 0, 0, 0, 0, 0, 0, 0, 0, 0, 0]"
  by (simp add: p64_def get64_def frag1_def frag2_def nth_append)

lemma update_frag1:
  "spooky_update (spooky_init zero_state 0 0) frag1 (length frag1) =
   Some \<lparr>m_data = frag1 @ frag2, m_state = [0, 0, 0, 0, 0, 0, 0, 0, 0, 0, 0, 0],
          m_length = 10, m_remainder = 10\<rparr>"
proof -
  have i: "spooky_init zero_state 0 0 =
      \<lparr>m_data = replicate 96 0, m_state = [0, 0, 0, 0, 0, 0, 0, 0, 0, 0, 0, 0],
       m_length = 0, m_remainder = 0\<rparr>"
    by (simp add: spooky_init_def zero_state_def)
  have l: "length frag1 = 10"
    by (simp add: frag1_def)
  have m: "memcpy (replicate 96 0) 0 frag1 0 10 = frag1 @ frag2"
    by (simp add: memcpy_def frag1_def frag2_def)
  show ?thesis
    unfolding i l by (subst update_short) (simp_all add: m)
qed

lemma update_frag2:
  "spooky_update \<lparr>m_data = frag1 @ frag2, m_state = [0, 0, 0, 0, 0, 0, 0, 0, 0, 0, 0, 0],
          m_length = 10, m_remainder = 10\<rparr> frag2 (length frag2) = Some stale_state"
proof -
  have l: "length frag2 = 86"
    by (simp add: frag2_def)
  have m: "memcpy (frag1 @ frag2) 10 frag2 0 86 = frag1 @ frag2"
    by (simp add: memcpy_def frag1_def frag2_def)
  have loop: "mix_loop frag2 86 86 h = Some h" for h
    by (subst mix_loop.simps) simp
  show ?thesis
    unfolding l
    by (subst update_long)
      (simp_all add: m p64_first_block mix_first_block loop store_vars_def stale_state_def
        cong: cbv)
qed

lemma updates_stale:
  "updates (spooky_init zero_state 0 0) [frag1, frag2] = Some stale_state"
  by (simp add: update_frag1 update_frag2)

lemma wf_stale_state: "wf_state stale_state"
  by (simp add: wf_state_def stale_state_def b96 SC_NUMVARS_def frag1_def frag2_def)

lemma p64_stale_pad:
  "p64 (final_pad stale_state) 0 = [1, 0, 0, 0, 0, 0, 0, 0, 0, 0, 0, 6917529027641081856]"
  by (simp add: final_pad_def stale_state_def p64_def get64_def frag1_def frag2_def nth_append
      nth_list_update)

lemma final_stale:
  "map_option snd (spooky_final stale_state 0 0) =
   Some (1617054920273516715, 10039923820296458474)"
proof -
  have l: "load_vars (m_state stale_state) =
     (2486098681750979507, 138538465099776, 13721091947369273964, 7794618577426451018, 18269543657277257515, 13781196428410266913, 11414246158330121289, 15562217197793467256, 10723709325363018386, 4887149571603940548, 12086408695478398151, 2967101599338562412)"
    by (simp add: load_vars_def stale_state_def)
  have "96 \<le> m_length stale_state"
    by (simp add: stale_state_def)
  then show ?thesis
    by (simp add: final_long_out [OF wf_stale_state] p64_stale_pad l mix_stale_block
        end_mix_stale)
qed

lemma p64_empty_pad:
  "p64 ((memset (memcpy local_buf 0 (frag1 @ frag2) 96 0) 0 0 96)[95 := 96]) 0 =
   [0, 0, 0, 0, 0, 0, 0, 0, 0, 0, 0, 6917529027641081856]"
  by (simp add: memset_def memcpy_def local_buf_def b96 p64_def get64_def nth_list_update)

lemma hash128_whole:
  "spooky_hash128 (frag1 @ frag2) (length (frag1 @ frag2)) 0 0 =
   Some (17055614207066493661, 9452969034744099679)"
proof -
  have l: "length (frag1 @ frag2) = 96"
    by (simp add: frag1_def frag2_def)
  have loop: "mix_loop (frag1 @ frag2) 0 96 (seed_vars 0 0) = Some
     (2486098681750979507, 138538465099776, 13721091947369273964, 7794618577426451018, 18269543657277257515, 13781196428410266913, 11414246158330121289, 15562217197793467256, 10723709325363018386, 4887149571603940548, 12086408695478398151, 2967101599338562412)"
    by (subst mix_loop.simps, simp add: p64_first_block mix_first_block b96)
      (subst mix_loop.simps, simp)
  show ?thesis
    unfolding l
    by (simp add: spooky_hash128_def b96 loop p64_empty_pad mix_empty_block end_mix_empty
        Let_def cong: cbv)
qed

section \<open>Streaming against one-shot hashing\<close>

text \<open>
  Claim C1, evaluated on the code.  With seeds \<open>(0, 0)\<close> and the 96-byte message
  \<open>frag1 @ frag2\<close> fed as a fragment of 10 bytes followed by one of 86 bytes,
  \<open>spooky_init\<close>, the two calls of \<open>spooky_update\<close> and \<open>spooky_final\<close> return the words
  \<open>(1617054920273516715, 10039923820296458474)\<close>, while \<open>spooky_hash128\<close> on the whole
  message returns \<open>(17055614207066493661, 9452969034744099679)\<close>.
\<close>

theorem streaming_differs_from_one_shot:
  "(updates (spooky_init zero_state 0 0) [frag1, frag2] \<bind>
      (\<lambda>state. map_option snd (spooky_final state 0 0))) =
     Some (1617054920273516715, 10039923820296458474) \<and>
   spooky_hash128 (frag1 @ frag2) (length (frag1 @ frag2)) 0 0 =
     Some (17055614207066493661, 9452969034744099679) \<and>
   (updates (spooky_init zero_state 0 0) [frag1, frag2] \<bind>
      (\<lambda>state. map_option snd (spooky_final state 0 0))) \<noteq>
   spooky_hash128 (frag1 @ frag2) (length (frag1 @ frag2)) 0 0"
  by (simp only: updates_stale bind.bind_lunit final_stale hash128_whole simp_thms) simp

section \<open>Invariants of the streaming state\<close>

text \<open>
  What every call of \<open>spooky_update\<close> preserves, for a fragment that lies inside its
  buffer: the array sizes and \<open>m_remainder < 96\<close>; \<open>m_length\<close> grows by the fragment
  length; below 96 bytes \<open>m_remainder\<close> equals \<open>m_length\<close>.
\<close>

lemma length_store_vars: "length (store_vars st h) = length st"
  by (simp add: store_vars_def split_beta)

lemma length_memcpy:
  "doff + n \<le> length dst \<Longrightarrow> soff + n \<le> length src \<Longrightarrow>
   length (memcpy dst doff src soff n) = length dst"
  by (simp add: memcpy_def)

lemma state_literal:
  "(state :: spooky_state) = \<lparr>m_data = m_data state, m_state = m_state state,
     m_length = m_length state, m_remainder = m_remainder state\<rparr>"
  by simp

lemma update_invariants:
  assumes wf: "wf_state state" and n: "n \<le> length msg"
    and upd: "spooky_update state msg n = Some state'"
  shows "wf_state state'" and "m_length state' = n + m_length state"
    and "(m_length state < 96 \<longrightarrow> m_remainder state = m_length state) \<longrightarrow>
         m_length state' < 96 \<longrightarrow> m_remainder state' = m_length state'"
proof -
  define x st l r where "x = m_data state" and "st = m_state state"
    and "l = m_length state" and "r = m_remainder state"
  have s: "state = \<lparr>m_data = x, m_state = st, m_length = l, m_remainder = r\<rparr>"
    unfolding x_def st_def l_def r_def by (rule state_literal)
  have w: "length x = 96" "length st = 12" "r < 96"
    using wf unfolding s by (simp_all add: wf_state_def b96 SC_NUMVARS_def)
  have "wf_state state' \<and> m_length state' = n + l \<and>
      (l < 96 \<and> r \<noteq> l \<or> m_length state' \<ge> 96 \<or> m_remainder state' = m_length state')"
  proof (cases "n + r < 96")
    case True
    then have "state' = \<lparr>m_data = memcpy x r msg 0 n, m_state = st, m_length = n + l,
        m_remainder = n + r\<rparr>"
      using upd unfolding s by (simp add: update_short)
    then show ?thesis
      using True w n by (auto simp: wf_state_def b96 SC_NUMVARS_def length_memcpy)
  next
    case False
    then have long: "96 \<le> n + r" by simp
    define h0 where "h0 = (if l < 96 then seed_vars (st ! 0) (st ! 1) else load_vars st)"
    define x1 where "x1 = (if r \<noteq> 0 then memcpy x r msg 0 (96 - r) else x)"
    define off where "off = (if r \<noteq> 0 then 96 - r else 0)"
    define len where "len = n - off"
    obtain h1 where h1: "(if r \<noteq> 0 then mix (p64 x1 0) h0 else Some h0) = Some h1"
      using mix_total [of "p64 x1 0" h0] by (cases "r = 0") auto
    obtain h2 where h2: "mix_loop msg off (off + len div 96 * 96) h1 = Some h2"
      using mix_loop_total by blast
    have lx1: "length x1 = 96"
      unfolding x1_def using w n long by (simp add: length_memcpy)
    have split: "off + len div 96 * 96 + len mod 96 = n"
      unfolding len_def off_def using long w by simp
    have "state' =
        (if 0 < len mod 96
         then \<lparr>m_data = memcpy x1 0 msg (off + len div 96 * 96) (len mod 96),
                m_state = store_vars st h2, m_length = n + l, m_remainder = len mod 96\<rparr>
         else \<lparr>m_data = x1, m_state = store_vars st h2, m_length = n + l, m_remainder = r\<rparr>)"
    proof (cases "r = 0")
      case True
      then show ?thesis
        using upd h1 h2 unfolding s update_long [OF long w(3)]
        by (auto simp: x1_def off_def len_def h0_def)
    next
      case False
      then show ?thesis
        using upd h1 h2 unfolding s update_long [OF long w(3)]
        by (auto simp: x1_def off_def len_def h0_def)
    qed
    moreover have "length (memcpy x1 0 msg (off + len div 96 * 96) (len mod 96)) = 96"
      using lx1 split n by (subst length_memcpy) simp_all
    moreover have "l < 96 \<and> r \<noteq> l \<or> 96 \<le> n + l"
      using long by linarith
    ultimately show ?thesis
      using w lx1 by (auto simp: wf_state_def b96 SC_NUMVARS_def length_store_vars)
  qed
  then show "wf_state state'" and "m_length state' = n + m_length state"
    and "(m_length state < 96 \<longrightarrow> m_remainder state = m_length state) \<longrightarrow>
         m_length state' < 96 \<longrightarrow> m_remainder state' = m_length state'"
    unfolding l_def r_def by auto
qed

lemma wf_init:
  "length (m_data state) = 96 \<Longrightarrow> length (m_state state) = 12 \<Longrightarrow>
   wf_state (spooky_init state seed1 seed2)"
  by (simp add: wf_state_def spooky_init_def b96 SC_NUMVARS_def)

lemma updates_invariants:
  assumes "wf_state state" "m_length state < 96 \<longrightarrow> m_remainder state = m_length state"
    and "updates state fs = Some state'"
  shows "wf_state state' \<and> m_length state' = m_length state + length (concat fs) \<and>
     (m_length state' < 96 \<longrightarrow> m_remainder state' = m_length state')"
  using assms
proof (induction fs arbitrary: state)
  case Nil
  then show ?case by simp
next
  case (Cons f fs)
  obtain s1 where s1: "spooky_update state f (length f) = Some s1"
    using spooky_update_total by blast
  have u: "updates s1 fs = Some state'"
    using Cons.prems(3) s1 by simp
  have i: "wf_state s1" "m_length s1 = length f + m_length state"
    "m_length s1 < 96 \<longrightarrow> m_remainder s1 = m_length s1"
    using update_invariants [OF Cons.prems(1) order_refl s1] Cons.prems(2) by simp_all
  show ?case
    using Cons.IH [OF i(1) i(3) u] i(2) by simp
qed

section \<open>The state after updates\<close>

text \<open>
  Claim C5, evaluated on the code.  After \<open>spooky_init\<close> and the updates with a
  fragment of 10 bytes and one of 86 bytes, \<open>m_length\<close> is 96 and all 96 bytes are folded
  into \<open>m_state\<close>, but \<open>m_remainder\<close> is still 10 and \<open>m_data[0 .. 10)\<close> holds the first
  ten bytes of the message, which differ from the last ten bytes appended.
\<close>

theorem stale_remainder_after_exact_fill:
  "updates (spooky_init zero_state 0 0) [frag1, frag2] = Some stale_state \<and>
   m_length stale_state = length (frag1 @ frag2) \<and>
   m_remainder stale_state = 10 \<and>
   take (m_remainder stale_state) (m_data stale_state) = frag1 \<and>
   drop (length (frag1 @ frag2) - m_remainder stale_state) (frag1 @ frag2) = replicate 10 0 \<and>
   frag1 \<noteq> replicate 10 0 \<and>
   map_option vars_list (mix (block_words (frag1 @ frag2)) (seed_vars 0 0)) =
     Some (m_state stale_state)"
proof -
  have len: "length (frag1 @ frag2) = 96"
    by (simp add: frag1_def frag2_def)
  have "p64 (frag1 @ frag2) 0 = block_words (take 96 (drop 0 (frag1 @ frag2)))"
    by (rule p64_block_words) (simp add: frag1_def frag2_def)
  moreover have "take 96 (drop 0 (frag1 @ frag2)) = frag1 @ frag2"
    by (simp add: frag1_def frag2_def)
  ultimately have w: "block_words (frag1 @ frag2) = [1, 0, 0, 0, 0, 0, 0, 0, 0, 0, 0, 0]"
    by (simp only: p64_first_block)
  have s: "m_length stale_state = 96" "m_remainder stale_state = 10"
    "m_data stale_state = frag1 @ frag2"
    "m_state stale_state = [2486098681750979507, 138538465099776, 13721091947369273964,
       7794618577426451018, 18269543657277257515, 13781196428410266913,
       11414246158330121289, 15562217197793467256, 10723709325363018386,
       4887149571603940548, 12086408695478398151, 2967101599338562412]"
    by (simp_all add: stale_state_def)
  have "hd frag1 \<noteq> hd (replicate 10 0)"
    by (simp add: frag1_def)
  then have ne: "frag1 \<noteq> replicate 10 0"
    by (rule contrapos_nn) simp
  have f: "take 10 (frag1 @ frag2) = frag1" "drop (96 - 10) (frag1 @ frag2) = replicate 10 0"
    by (simp_all add: frag1_def frag2_def)
  show ?thesis
    by (simp only: updates_stale w mix_first_block s len f ne)
      (simp add: vars_list_def)
qed

section \<open>The final call below 96 bytes\<close>

lemma shorthash_empty_00:
  "spooky_shorthash (replicate 96 0) 0 0 0 = Some (9455175969015866530, 11224430879215462696)"
  by (simp add: spooky_shorthash_def short_chunks_def short_length_def short_switch_def
      case_0_def SC_CONST_def short_end_tuple eval_rot cong: cbv)

lemma shorthash_empty_12:
  "spooky_shorthash [] 0 1 2 = Some (8907861694244392360, 5065828474899662215)"
  by (simp add: spooky_shorthash_def short_chunks_def short_length_def short_switch_def
      case_0_def SC_CONST_def short_end_tuple eval_rot cong: cbv)

text \<open>
  Claim C2, evaluated on the code.  After \<open>spooky_init\<close> with seeds \<open>(1, 2)\<close> and no
  update, \<open>spooky_final\<close> called with output variables that hold \<open>(0, 0)\<close> returns
  \<open>(9455175969015866530, 11224430879215462696)\<close>, the short hash of the empty message
  for the seeds \<open>(0, 0)\<close>; the short hash for the seeds \<open>(1, 2)\<close>, which
  \<open>spooky_hash128\<close> returns, is \<open>(8907861694244392360, 5065828474899662215)\<close>.  The
  two agree only when the output variables hold the seeds at the call.
\<close>

theorem final_short_uses_callers_values:
  "map_option snd (spooky_final (spooky_init zero_state 1 2) 0 0) =
     Some (9455175969015866530, 11224430879215462696) \<and>
   spooky_hash128 [] 0 1 2 = Some (8907861694244392360, 5065828474899662215) \<and>
   map_option snd (spooky_final (spooky_init zero_state 1 2) 1 2) = spooky_hash128 [] 0 1 2"
proof -
  have i: "m_length (spooky_init zero_state 1 2) = 0"
    "m_data (spooky_init zero_state 1 2) = replicate 96 0"
    by (simp_all add: spooky_init_def zero_state_def)
  have s12: "spooky_shorthash (replicate 96 0) 0 1 2 =
      Some (8907861694244392360, 5065828474899662215)"
    by (simp add: spooky_shorthash_def short_chunks_def short_length_def short_switch_def
        case_0_def SC_CONST_def short_end_tuple eval_rot cong: cbv)
  show ?thesis
    by (simp add: final_short i shorthash_empty_00 shorthash_empty_12 s12 spooky_hash128_def
        b96 option.map_comp o_def)
qed

section \<open>The length in the short-hash routine\<close>

lemma short_mix_msg16:
  "short_mix (0, 0, 1, 0) =
   Some (14178628678274429882, 12553994742333448712, 351992740293554552, 7934973765899602185)"
  by (simp add: short_mix_tuple eval_rot cong: cbv)

text \<open>
  Claim C3, evaluated on the code.  For the 16-byte message \<open>msg16\<close> with seeds
  \<open>(0, 0)\<close>, the chunk processing leaves \<open>d = 7934973765899602185\<close>; the statement
  \<open>d = ((uint64_t)length) << 56\<close> then makes \<open>d = 16 << 56 = 1152921504606846976\<close>,
  which is not the sum of the two modulo \<open>2^64\<close>.
\<close>

theorem short_length_overwrites_d:
  "short_chunks msg16 (length msg16) (length msg16 mod 32) (0, 0, 0, 0) =
     Some (16, 0, 14178628678274429882, 12553994742333448712, 351992740293554552,
           7934973765899602185) \<and>
   short_length (length msg16)
     (14178628678274429882, 12553994742333448712, 351992740293554552, 7934973765899602185) =
     (14178628678274429882, 12553994742333448712, 351992740293554552, 1152921504606846976) \<and>
   (1152921504606846976 :: u64) \<noteq> 7934973765899602185 + push_bit 56 (of_nat (length msg16))"
proof -
  have l: "length msg16 = 16"
    by (simp add: msg16_def)
  have g: "get64 msg16 0 = 1" "get64 msg16 8 = 0"
    by (simp_all add: get64_def msg16_def)
  have loop: "short_loop msg16 0 0 h = Some (0, h)" for h
    by (cases h) (simp add: short_loop.simps)
  show ?thesis
    unfolding l
    by (simp add: short_chunks_def loop g short_mix_msg16 short_length_def cong: cbv)
qed

section \<open>The final call on a reached state\<close>

lemma p64_msg100: "p64 msg100 0 = [1, 0, 0, 0, 0, 0, 0, 0, 0, 0, 0, 0]"
  by (simp add: p64_def get64_def msg100_def frag1_def frag2_def nth_append)

lemma updates_buffered:
  "updates (spooky_init zero_state 0 0) [msg100] = Some buffered_state"
proof -
  have i: "spooky_init zero_state 0 0 =
      \<lparr>m_data = replicate 96 0, m_state = [0, 0, 0, 0, 0, 0, 0, 0, 0, 0, 0, 0],
       m_length = 0, m_remainder = 0\<rparr>"
    by (simp add: spooky_init_def zero_state_def)
  have l: "length msg100 = 100"
    by (simp add: msg100_def frag1_def frag2_def)
  have m: "memcpy (replicate 96 0) 0 msg100 96 4 = [1, 1, 1, 1] @ replicate 92 0"
    by (simp add: memcpy_def msg100_def frag1_def frag2_def)
  have loop: "mix_loop msg100 0 96 (seed_vars 0 0) = Some
     (2486098681750979507, 138538465099776, 13721091947369273964, 7794618577426451018,
      18269543657277257515, 13781196428410266913, 11414246158330121289,
      15562217197793467256, 10723709325363018386, 4887149571603940548,
      12086408695478398151, 2967101599338562412)"
    by (subst mix_loop.simps, simp add: p64_msg100 mix_first_block b96)
      (subst mix_loop.simps, simp)
  have "spooky_update (spooky_init zero_state 0 0) msg100 (length msg100) = Some buffered_state"
    unfolding i l
    by (subst update_long)
      (simp_all add: m loop store_vars_def buffered_state_def cong: cbv)
  then show ?thesis
    by simp
qed

lemma wf_buffered_state: "wf_state buffered_state"
  by (simp add: buffered_state_def wf_state_def b96 SC_NUMVARS_def)

text \<open>The frame theorems of \<open>spooky_final\<close> at this state.\<close>

theorem final_long_frame_witness:
  "wf_state buffered_state \<and> 96 \<le> m_length buffered_state \<and> 1 \<le> length [5 :: u8] \<and>
   (\<exists>state' out. spooky_final buffered_state 0 0 = Some (state', out) \<and>
     state' = buffered_state\<lparr>m_data := m_data state'\<rparr> \<and>
     m_state state' = m_state buffered_state \<and> m_length state' = m_length buffered_state \<and>
     m_remainder state' = m_remainder buffered_state \<and>
     take (m_remainder buffered_state) (m_data state') =
       take (m_remainder buffered_state) (m_data buffered_state) \<and>
     length (m_data state') = length (m_data buffered_state) \<and>
     logical_state state' = logical_state buffered_state \<and>
     map_option logical_state (spooky_update state' [5] 1) =
       map_option logical_state (spooky_update buffered_state [5] 1) \<and>
     map_option snd (spooky_final state' 7 8) = map_option snd (spooky_final buffered_state 7 8))"
proof -
  have h: "wf_state buffered_state" "96 \<le> m_length buffered_state" "1 \<le> length [5 :: u8]"
    by (simp_all add: wf_buffered_state) (simp add: buffered_state_def)
  show ?thesis
    using h final_long_frame [OF h, of 0 0 7 8] by simp
qed

theorem final_frame_witness:
  "wf_state buffered_state \<and>
   (\<exists>out. spooky_final buffered_state 0 0 =
       Some (if m_length buffered_state < 96 then buffered_state
             else buffered_state\<lparr>m_data := final_pad buffered_state\<rparr>, out) \<and>
     length (final_pad buffered_state) = length (m_data buffered_state) \<and>
     take (m_remainder buffered_state) (final_pad buffered_state) =
       take (m_remainder buffered_state) (m_data buffered_state))"
  using wf_buffered_state final_frame [OF wf_buffered_state, of 0 0] by simp

text \<open>
  Claim C4 as stated (the state is bit-for-bit unchanged) fails: after \<open>spooky_init\<close>,
  one update with the 100-byte message and \<open>spooky_final\<close>, the last byte of \<open>m_data\<close>
  is 100 where it was 0 before the call.
\<close>

theorem final_modifies_m_data:
  "map_option fst (spooky_final buffered_state 0 0) \<noteq> Some buffered_state"
proof -
  have h: "96 \<le> m_length buffered_state"
    by (simp add: buffered_state_def)
  obtain out where "spooky_final buffered_state 0 0 =
      Some (buffered_state\<lparr>m_data := final_pad buffered_state\<rparr>, out)"
    using final_long_Some [OF wf_buffered_state h] by blast
  moreover have "final_pad buffered_state ! 95 = 100" "m_data buffered_state ! 95 = 0"
    by (simp_all add: final_pad_def buffered_state_def nth_append)
  ultimately show ?thesis
    by (auto dest!: arg_cong [where f = "\<lambda>s. m_data s ! 95"])
qed

end
